theory Spec2Isabelle
  imports Complex_Main "HOL-Library.Sublist"
begin

section \<open>JavaScript values and strings\<close>

text \<open>
  The service module (the second half of \<^verbatim>\<open>src/src/pages/About.tsx\<close>, from the
  import of papaparse on) works on plain JavaScript objects. An object is a map from
  property names to values; a property that is not there reads as \<^verbatim>\<open>undefined\<close>,
  which is \<open>None\<close> here.

  A number is a \<open>real\<close>: the decimal value the program text or the parsed digits
  denote. The IEEE rounding of a double is not part of the model, and neither is
  \<^verbatim>\<open>NaN\<close> as a stored value (the code replaces it before it stores a number).

  A string is a list of 8-bit characters; case conversion acts on the ASCII letters.
\<close>

datatype jsval = JNull | JBool bool | JNum real | JStr string

type_synonym row = "string \<rightharpoonup> jsval"

text \<open>
  What the CSV parser delivers for one line: with \<^verbatim>\<open>header: true\<close> and without
  \<^verbatim>\<open>dynamicTyping\<close>, every field value is a string. \<^verbatim>\<open>preprocessCSV\<close> is not
  exported and its only caller (line 310) hands it these rows. (For a line with more
  fields than the header the parser adds the surplus as a list under
  \<^verbatim>\<open>__parsed_extra\<close>; the normalizer copies it and never reads it, and it is left
  out.)
\<close>

type_synonym raw_row = "string \<rightharpoonup> string"

text \<open>Truthiness, for \<^verbatim>\<open>if (v)\<close>, \<^verbatim>\<open>!v\<close> and \<^verbatim>\<open>a || b\<close>.\<close>

fun truthy :: "jsval option \<Rightarrow> bool" where
  "truthy None = False"
| "truthy (Some JNull) = False"
| "truthy (Some (JBool b)) = b"
| "truthy (Some (JNum x)) = (x \<noteq> 0)"
| "truthy (Some (JStr s)) = (s \<noteq> [])"

definition js_or :: "jsval option \<Rightarrow> jsval option \<Rightarrow> jsval option" where
  "js_or a b = (if truthy a then a else b)"

fun truthyStr :: "string option \<Rightarrow> bool" where
  "truthyStr None = False"
| "truthyStr (Some s) = (s \<noteq> [])"

definition lowerLetters :: string where
  "lowerLetters = ''abcdefghijklmnopqrstuvwxyz''"

definition upperLetters :: string where
  "upperLetters = ''ABCDEFGHIJKLMNOPQRSTUVWXYZ''"

definition toUpperCaseChar :: "char \<Rightarrow> char" where
  "toUpperCaseChar c =
     (case map_of (zip lowerLetters upperLetters) c of None \<Rightarrow> c | Some u \<Rightarrow> u)"

definition toLowerCaseChar :: "char \<Rightarrow> char" where
  "toLowerCaseChar c =
     (case map_of (zip upperLetters lowerLetters) c of None \<Rightarrow> c | Some l \<Rightarrow> l)"

definition toUpperCase :: "string \<Rightarrow> string" where
  "toUpperCase s = map toUpperCaseChar s"

definition toLowerCase :: "string \<Rightarrow> string" where
  "toLowerCase s = map toLowerCaseChar s"

text \<open>\<^verbatim>\<open>s.startsWith(p)\<close> and \<^verbatim>\<open>s.includes(sub)\<close>.\<close>

definition startsWith :: "string \<Rightarrow> string \<Rightarrow> bool" where
  "startsWith s p = prefix p s"

fun strIncludes :: "string \<Rightarrow> string \<Rightarrow> bool" where
  "strIncludes [] sub = (sub = [])"
| "strIncludes (c # cs) sub = (prefix sub (c # cs) \<or> strIncludes cs sub)"

definition isDigit :: "char \<Rightarrow> bool" where
  "isDigit c = (c \<in> set ''0123456789'')"

text \<open>The decimal text of an integer, as a template literal prints it.\<close>

definition digitChar :: "nat \<Rightarrow> char" where
  "digitChar d = ''0123456789'' ! d"

fun showNat :: "nat \<Rightarrow> string" where
  "showNat n = (if n < 10 then [digitChar n] else showNat (n div 10) @ [digitChar (n mod 10)])"

declare showNat.simps [simp del]

definition showInt :: "int \<Rightarrow> string" where
  "showInt i = (if i < 0 then CHR ''-'' # showNat (nat (- i)) else showNat (nat i))"

text \<open>The value of a string of decimal digits.\<close>

definition digitVal :: "char \<Rightarrow> nat" where
  "digitVal c =
     (case map_of [(CHR ''0'', 0), (CHR ''1'', 1), (CHR ''2'', 2), (CHR ''3'', 3), (CHR ''4'', 4),
                   (CHR ''5'', 5), (CHR ''6'', 6), (CHR ''7'', 7), (CHR ''8'', 8), (CHR ''9'', 9)] c of
        None \<Rightarrow> 0
      | Some d \<Rightarrow> d)"

definition digitsVal :: "string \<Rightarrow> nat" where
  "digitsVal ds = foldl (\<lambda>acc c. 10 * acc + digitVal c) 0 ds"

subsection \<open>\<^verbatim>\<open>Number(key)\<close> on a column name\<close>

text \<open>
  \<^verbatim>\<open>!isNaN(Number(key))\<close> holds when the whole key, white space trimmed, is empty
  or a numeric literal of the StringNumericLiteral grammar: a signed decimal literal
  (digits, fraction, exponent, or \<^verbatim>\<open>Infinity\<close>) or an unsigned binary, octal or
  hexadecimal integer literal.
\<close>

definition isWhiteSpace :: "char \<Rightarrow> bool" where
  "isWhiteSpace c = (c \<in> set [CHR '' '', CHR 0x09, CHR 0x0A, CHR 0x0B, CHR 0x0C, CHR 0x0D])"

definition trim :: "string \<Rightarrow> string" where
  "trim s = rev (dropWhile isWhiteSpace (rev (dropWhile isWhiteSpace s)))"

definition isExponentPart :: "string \<Rightarrow> bool" where
  "isExponentPart s =
     (case s of
        [] \<Rightarrow> False
      | e # r \<Rightarrow>
          (e = CHR ''e'' \<or> e = CHR ''E'') \<and>
          (let ds = (case r of [] \<Rightarrow> [] | c # r' \<Rightarrow> if c = CHR ''+'' \<or> c = CHR ''-'' then r' else r)
           in ds \<noteq> [] \<and> list_all isDigit ds))"

definition isUnsignedDecimalLiteral :: "string \<Rightarrow> bool" where
  "isUnsignedDecimalLiteral s =
     (s = ''Infinity'' \<or>
      (let ip = takeWhile isDigit s; r = dropWhile isDigit s in
       case r of
         [] \<Rightarrow> ip \<noteq> []
       | c # r' \<Rightarrow>
           if c = CHR ''.''
           then (let fp = takeWhile isDigit r'; r'' = dropWhile isDigit r' in
                 (ip \<noteq> [] \<or> fp \<noteq> []) \<and> (r'' = [] \<or> isExponentPart r''))
           else ip \<noteq> [] \<and> isExponentPart r))"

definition isDecimalLiteral :: "string \<Rightarrow> bool" where
  "isDecimalLiteral s =
     (case s of
        [] \<Rightarrow> False
      | c # r \<Rightarrow> if c = CHR ''+'' \<or> c = CHR ''-'' then isUnsignedDecimalLiteral r
                 else isUnsignedDecimalLiteral s)"

definition isNonDecimalIntegerLiteral :: "string \<Rightarrow> bool" where
  "isNonDecimalIntegerLiteral s =
     (case s of
        z # x # ds \<Rightarrow>
          z = CHR ''0'' \<and> ds \<noteq> [] \<and>
          (if x = CHR ''x'' \<or> x = CHR ''X''
             then list_all (\<lambda>c. c \<in> set ''0123456789abcdefABCDEF'') ds
           else if x = CHR ''o'' \<or> x = CHR ''O''
             then list_all (\<lambda>c. c \<in> set ''01234567'') ds
           else if x = CHR ''b'' \<or> x = CHR ''B''
             then list_all (\<lambda>c. c \<in> set ''01'') ds
           else False)
      | _ \<Rightarrow> False)"

definition isNumericString :: "string \<Rightarrow> bool" where
  "isNumericString key =
     (let t = trim key in t = [] \<or> isNonDecimalIntegerLiteral t \<or> isDecimalLiteral t)"

subsection \<open>\<^verbatim>\<open>parseFloat\<close> on the stripped amount\<close>

text \<open>
  Line 166 hands \<^verbatim>\<open>parseFloat\<close> a string from which every character but the
  digits and the dot has been removed. On such a string \<^verbatim>\<open>parseFloat\<close> reads the
  longest prefix of the form digits, digits-dot-digits or dot-digits and returns its
  value; with no digit there it returns \<^verbatim>\<open>NaN\<close>, which is \<open>None\<close> here.
\<close>

definition parseFloat :: "string \<Rightarrow> real option" where
  "parseFloat s =
     (let ip = takeWhile isDigit s; r = dropWhile isDigit s;
          fp = (case r of [] \<Rightarrow> [] | c # r' \<Rightarrow> if c = CHR ''.'' then takeWhile isDigit r' else [])
      in if ip = [] \<and> fp = [] then None
         else Some (real (digitsVal ip) + real (digitsVal fp) / 10 ^ length fp))"

section \<open>The row normalizer\<close>

text \<open>
  \<^verbatim>\<open>new Date(text)\<close> depends on the host and its time zone; the normalizer takes it
  as a parameter. \<open>None\<close> is an invalid date (\<^verbatim>\<open>isNaN(dateObj.getTime())\<close>).
\<close>

record js_date =
  getTime :: int
  getHours :: int
  getFullYear :: int
  getMonth :: int
  getDate :: int

type_synonym date_parser = "string \<Rightarrow> js_date option"

text \<open>
  \<^verbatim>\<open>Math.random()\<close> reads and advances a hidden generator: the state is the stream
  of the draws still to come, each in the interval from 0 (included) to 1 (excluded).
\<close>

type_synonym rng = "nat \<Rightarrow> real"

definition mathRandom :: "rng \<Rightarrow> real \<times> rng" where
  "mathRandom g = (g 0, \<lambda>n. g (Suc n))"

definition unitDraws :: "rng \<Rightarrow> bool" where
  "unitDraws g = (\<forall>n. 0 \<le> g n \<and> g n < 1)"

text \<open>The value of \<^verbatim>\<open>row.key\<close> when it is truthy: a string that is not empty.\<close>

definition truthyField :: "raw_row \<Rightarrow> string \<Rightarrow> string option" where
  "truthyField row key = (case row key of None \<Rightarrow> None | Some s \<Rightarrow> if s = [] then None else Some s)"

text \<open>
  Lines 143-153: copy every field, then delete numeric and unnamed columns. (Lines
  118-124 only log.)
\<close>

definition dropColumn :: "string \<Rightarrow> bool" where
  "dropColumn key = (isNumericString key \<or> startsWith key ''Unnamed'')"

definition copyRow :: "raw_row \<Rightarrow> row" where
  "copyRow row = (\<lambda>key. map_option JStr (row key))"

definition deleteColumns :: "row \<Rightarrow> row" where
  "deleteColumns processedRow = (\<lambda>key. if dropColumn key then None else processedRow key)"

text \<open>Lines 155-157: the id, mirrored into \<^verbatim>\<open>trans_num\<close>.\<close>

definition generatedId :: "real \<Rightarrow> string" where
  "generatedId r = ''TX-'' @ showInt \<lfloor>1000000 + r * 9000000\<rfloor>"

definition setId :: "raw_row \<Rightarrow> rng \<Rightarrow> row \<Rightarrow> row \<times> rng" where
  "setId row g processedRow =
     (let (ident, g') =
            (case truthyField row ''trans_num'' of
               Some t \<Rightarrow> (t, g)
             | None \<Rightarrow>
                 (case truthyField row ''id'' of
                    Some i \<Rightarrow> (i, g)
                  | None \<Rightarrow> (let (r, g') = mathRandom g in (generatedId r, g'))))
      in (processedRow(''id'' \<mapsto> JStr ident, ''trans_num'' \<mapsto> JStr ident), g'))"

text \<open>Lines 159-162.\<close>

definition fixCcNum :: "raw_row \<Rightarrow> row \<Rightarrow> row" where
  "fixCcNum row processedRow =
     (case truthyField row ''cc_num'' of
        Some c \<Rightarrow> processedRow(''cc_num'' \<mapsto> JStr (filter isDigit c))
      | None \<Rightarrow> processedRow)"

text \<open>Lines 164-169.\<close>

definition stripAmount :: "string \<Rightarrow> string" where
  "stripAmount s = filter (\<lambda>c. isDigit c \<or> c = CHR ''.'') s"

definition fixAmount :: "raw_row \<Rightarrow> row \<Rightarrow> row" where
  "fixAmount row processedRow =
     (case truthyField row ''amt'' of
        Some a \<Rightarrow>
          (let amt = parseFloat (stripAmount a);
               v = (case amt of None \<Rightarrow> 0 | Some x \<Rightarrow> x)
           in processedRow(''amt'' \<mapsto> JNum v, ''amount'' \<mapsto> JNum v))
      | None \<Rightarrow> processedRow)"

text \<open>
  Lines 171-194. On a string neither \<^verbatim>\<open>split\<close> nor \<^verbatim>\<open>new Date\<close> throws, so the
  \<^verbatim>\<open>catch\<close> of line 191 has no branch here.
\<close>

definition fixDate :: "date_parser \<Rightarrow> raw_row \<Rightarrow> row \<Rightarrow> row" where
  "fixDate newDate row processedRow =
     (case truthyField row ''trans_date_trans_time'' of
        None \<Rightarrow> processedRow
      | Some t \<Rightarrow>
          (let p = processedRow(''date'' \<mapsto> JStr (takeWhile (\<lambda>c. c \<noteq> CHR '' '') t),
                                ''trans_date_trans_time'' \<mapsto> JStr t)
           in case newDate t of
                None \<Rightarrow> p
              | Some dateObj \<Rightarrow>
                  (let p = p(''transaction_hour'' \<mapsto> JNum (real_of_int (getHours dateObj)),
                             ''year'' \<mapsto> JNum (real_of_int (getFullYear dateObj)),
                             ''month'' \<mapsto> JNum (real_of_int (getMonth dateObj + 1)),
                             ''day'' \<mapsto> JNum (real_of_int (getDate dateObj)),
                             ''hour'' \<mapsto> JNum (real_of_int (getHours dateObj)))
                   in if \<not> truthy (p ''unix_time'')
                      then p(''unix_time'' \<mapsto> JNum (real_of_int (getTime dateObj div 1000)))
                      else p)))"

text \<open>Lines 196-220: the thirteen category flags.\<close>

definition categoryKey :: "nat \<Rightarrow> string" where
  "categoryKey i = ''category_'' @ showNat i"

definition initCategories :: "row \<Rightarrow> row" where
  "initCategories processedRow = fold (\<lambda>i p. p(categoryKey i \<mapsto> JNum 0)) [1 ..< 14] processedRow"

definition setCategory :: "raw_row \<Rightarrow> row \<Rightarrow> row" where
  "setCategory row processedRow =
     (let p = initCategories processedRow in
      case truthyField row ''category'' of
        Some c \<Rightarrow>
          (let category = toLowerCase c in
           if strIncludes category ''grocery'' then p(''category_1'' \<mapsto> JNum 1)
           else if strIncludes category ''gas'' \<or> strIncludes category ''transport''
             then p(''category_2'' \<mapsto> JNum 1)
           else if strIncludes category ''entertain'' then p(''category_3'' \<mapsto> JNum 1)
           else if strIncludes category ''misc'' then p(''category_4'' \<mapsto> JNum 1)
           else if strIncludes category ''health'' then p(''category_5'' \<mapsto> JNum 1)
           else if strIncludes category ''food'' \<or> strIncludes category ''dining''
             then p(''category_6'' \<mapsto> JNum 1)
           else if strIncludes category ''shop'' then p(''category_7'' \<mapsto> JNum 1)
           else if strIncludes category ''personal'' then p(''category_8'' \<mapsto> JNum 1)
           else if strIncludes category ''home'' then p(''category_9'' \<mapsto> JNum 1)
           else if strIncludes category ''kids'' then p(''category_10'' \<mapsto> JNum 1)
           else if strIncludes category ''travel'' then p(''category_11'' \<mapsto> JNum 1)
           else if strIncludes category ''service'' then p(''category_12'' \<mapsto> JNum 1)
           else p(''category_1'' \<mapsto> JNum 1))
      | None \<Rightarrow> p(''category_1'' \<mapsto> JNum 1))"

text \<open>Lines 222-227.\<close>

definition setGender :: "raw_row \<Rightarrow> row \<Rightarrow> row" where
  "setGender row processedRow =
     (case truthyField row ''gender'' of
        Some gender \<Rightarrow> processedRow(''gender_M'' \<mapsto> JNum (if toUpperCase gender = ''M'' then 1 else 0))
      | None \<Rightarrow> processedRow(''gender_M'' \<mapsto> JNum 0))"

text \<open>
  Lines 229-255: the fifty state flags. In the branch of line 247 the value read from
  \<^verbatim>\<open>processedRow\<close> may be of any kind; the text of a number or a boolean is never
  one of the codes, so only a string can set a flag there.
\<close>

definition states :: "string list" where
  "states = [''AL'', ''AR'', ''AZ'', ''CA'', ''CO'', ''CT'', ''DC'', ''DE'', ''FL'', ''GA'',
             ''HI'', ''IA'', ''ID'', ''IL'', ''IN'', ''KS'', ''KY'', ''LA'', ''MA'', ''MD'',
             ''ME'', ''MI'', ''MN'', ''MO'', ''MS'', ''MT'', ''NC'', ''ND'', ''NE'', ''NH'',
             ''NJ'', ''NM'', ''NV'', ''NY'', ''OH'', ''OK'', ''OR'', ''PA'', ''RI'', ''SC'',
             ''SD'', ''TN'', ''TX'', ''UT'', ''VA'', ''VT'', ''WA'', ''WI'', ''WV'', ''WY'']"

definition stateKey :: "string \<Rightarrow> string" where
  "stateKey code = ''state_'' @ code"

definition initStates :: "row \<Rightarrow> row" where
  "initStates processedRow = fold (\<lambda>state p. p(stateKey state \<mapsto> JNum 0)) states processedRow"

definition markState :: "string \<Rightarrow> row \<Rightarrow> row" where
  "markState text p =
     (let stateCode = toUpperCase text in
      if stateCode \<in> set states then p(stateKey stateCode \<mapsto> JNum 1) else p)"

definition setState :: "raw_row \<Rightarrow> row \<Rightarrow> row" where
  "setState row processedRow =
     (let p = initStates processedRow in
      case truthyField row ''state'' of
        Some s \<Rightarrow> markState s p
      | None \<Rightarrow>
          if truthy (p ''state'')
          then (case p ''state'' of Some (JStr s) \<Rightarrow> markState s p | _ \<Rightarrow> p)
          else p(''state_CA'' \<mapsto> JNum 1))"

text \<open>Lines 257-260.\<close>

definition setAge :: "raw_row \<Rightarrow> row \<Rightarrow> row" where
  "setAge row processedRow =
     (if \<not> truthyStr (row ''age'') then processedRow(''age'' \<mapsto> JNum 30) else processedRow)"

text \<open>The callback of \<^verbatim>\<open>batchData.map\<close>, lines 141-263.\<close>

definition preprocessRow :: "date_parser \<Rightarrow> raw_row \<Rightarrow> rng \<Rightarrow> row \<times> rng" where
  "preprocessRow newDate row g =
     (let processedRow = deleteColumns (copyRow row);
          (processedRow, g') = setId row g processedRow;
          processedRow = fixCcNum row processedRow;
          processedRow = fixAmount row processedRow;
          processedRow = fixDate newDate row processedRow;
          processedRow = setCategory row processedRow;
          processedRow = setGender row processedRow;
          processedRow = setState row processedRow;
          processedRow = setAge row processedRow
      in (processedRow, g'))"

section \<open>The batch preprocessor\<close>

text \<open>
  \<^verbatim>\<open>xs.map(callback)\<close> for a callback that may draw random numbers: the elements are
  visited in order and the generator is handed from one call to the next.
\<close>

fun mapRandom :: "('a \<Rightarrow> rng \<Rightarrow> 'b \<times> rng) \<Rightarrow> 'a list \<Rightarrow> rng \<Rightarrow> 'b list \<times> rng" where
  "mapRandom callback [] g = ([], g)"
| "mapRandom callback (x # xs) g =
     (let (y, g') = callback x g;
          (ys, g'') = mapRandom callback xs g'
      in (y # ys, g''))"

definition CHUNK_SIZE :: nat where
  "CHUNK_SIZE = 10000"

definition slice :: "'a list \<Rightarrow> nat \<Rightarrow> nat \<Rightarrow> 'a list" where
  "slice xs a b = take (b - a) (drop a xs)"

text \<open>One turn of the loop of line 133.\<close>

definition processBatch ::
  "date_parser \<Rightarrow> raw_row list \<Rightarrow> nat \<Rightarrow> row list \<times> rng \<Rightarrow> row list \<times> rng" where
  "processBatch newDate data batchIndex acc =
     (let (processedData, g) = acc;
          startIdx = batchIndex * CHUNK_SIZE;
          endIdx = min (startIdx + CHUNK_SIZE) (length data);
          batchData = slice data startIdx endIdx;
          (processedBatch, g') = mapRandom (preprocessRow newDate) batchData g
      in (processedData @ processedBatch, g'))"

text \<open>Lines 111-271; \<open>totalBatches\<close> is \<^verbatim>\<open>Math.ceil(data.length / CHUNK_SIZE)\<close>.\<close>

definition preprocessCSV :: "date_parser \<Rightarrow> raw_row list \<Rightarrow> rng \<Rightarrow> row list \<times> rng" where
  "preprocessCSV newDate data g =
     (if data = [] then ([], g)
      else (let totalBatches = (length data + CHUNK_SIZE - 1) div CHUNK_SIZE
            in fold (processBatch newDate data) [0 ..< totalBatches] ([], g)))"

section \<open>The CSV parser\<close>

text \<open>
  A value that is thrown, or with which a promise is rejected: the code reads its
  \<^verbatim>\<open>name\<close> and its \<^verbatim>\<open>message\<close>.
\<close>

record js_error =
  name :: string
  message :: string

definition Error :: "string \<Rightarrow> js_error" where
  "Error msg = \<lparr>name = ''Error'', message = msg\<rparr>"

text \<open>
  How a piece of code ends: it returns a value, it throws, or it never ends. For an
  asynchronous function these are a promise that resolves with the value, one that
  rejects with the value thrown, and one that is never settled.
\<close>

datatype 'a completion = Returned 'a | Thrown js_error | Pending

text \<open>
  papaparse is not part of the repository. It reads the file piece by piece and calls
  \<^verbatim>\<open>chunk\<close> with the rows of each piece; it calls \<^verbatim>\<open>error\<close> when the file cannot
  be read; after the last piece, or as soon as \<^verbatim>\<open>parser.abort()\<close> has been called,
  it calls \<^verbatim>\<open>complete\<close> and delivers nothing more. When the \<^verbatim>\<open>chunk\<close> callback
  throws, it calls neither of them.

  Line 295 passes the rows of a chunk as the arguments of one call of \<^verbatim>\<open>push\<close>, which
  throws a \<^verbatim>\<open>RangeError\<close> when the chunk has more rows than the engine accepts as
  arguments of a call. A file is modelled by what the parser delivers for it: a chunk
  that the engine can push, a chunk that is too large for it, or a read error.
\<close>

datatype parse_event = Chunk "raw_row list" | OversizedChunk "raw_row list" | ParseError js_error

text \<open>
  Lines 285-302 and 317-320: \<open>results\<close> is the array the \<^verbatim>\<open>chunk\<close> callback
  pushes to. \<open>Returned\<close> is the array when \<^verbatim>\<open>complete\<close> is called, \<open>Thrown\<close> the
  reason of \<^verbatim>\<open>reject\<close>, and \<open>Pending\<close> the case in which neither is called.
\<close>

fun feedChunks :: "parse_event list \<Rightarrow> raw_row list \<Rightarrow> raw_row list completion" where
  "feedChunks [] results = Returned results"
| "feedChunks (ParseError e # rest) results = Thrown e"
| "feedChunks (OversizedChunk rows # rest) results = Pending"
| "feedChunks (Chunk rows # rest) results =
     (let results = results @ rows
      in if length results > 100000 then Returned results else feedChunks rest results)"

text \<open>
  Lines 273-323: the promise of \<^verbatim>\<open>processCSV\<close>. The \<^verbatim>\<open>catch\<close> of line 312 has no
  branch: on rows of strings \<open>preprocessCSV\<close> does not throw.
\<close>

definition processCSV ::
  "date_parser \<Rightarrow> parse_event list \<Rightarrow> rng \<Rightarrow> row list completion \<times> rng" where
  "processCSV newDate file g =
     (case feedChunks file [] of
        Pending \<Rightarrow> (Pending, g)
      | Thrown e \<Rightarrow> (Thrown e, g)
      | Returned results \<Rightarrow>
          (let (preprocessedData, g') = preprocessCSV newDate results g
           in (Returned preprocessedData, g')))"

section \<open>The prediction client\<close>

text \<open>
  Modelled from the spec: the interface \<^verbatim>\<open>PredictionResponse\<close> of
  \<^verbatim>\<open>@/types/transaction\<close>, which is not in the sources: three lists of partial
  transaction records and an optional summary of counts.

  The interface is erased when the program runs, and \<^verbatim>\<open>response.json()\<close> gives
  whatever the body holds, so the model also has the bodies that do not fit:
  \<^item> the body \<^verbatim>\<open>null\<close> (\<open>JsonNull\<close>); a body that is a number, a string, a boolean
    or an array reads as an object without the four properties;
  \<^item> a bucket that is absent or falsy (\<open>NoBucket\<close>), an array (\<open>Items\<close>), or any
    other truthy value (\<open>NotAnArray\<close>);
  \<^item> an element of a bucket that is an object, or \<^verbatim>\<open>null\<close> (\<open>None\<close>); an element
    that is a number or a boolean behaves as the empty object, a string or an array as
    the object of its elements.
  The summary is absent or falsy (\<open>None\<close>) or holds the three numbers the interface
  declares, and the properties of an element are scalars.
\<close>

record risk_distribution =
  High :: real
  Medium :: real
  Low :: real

datatype bucket_json = NoBucket | Items "row option list" | NotAnArray

record PredictionResponse =
  highRiskTransactions :: bucket_json
  mediumRiskTransactions :: bucket_json
  lowRiskTransactions :: bucket_json
  riskDistribution :: "risk_distribution option"

datatype prediction_json = JsonNull | JsonObject PredictionResponse

text \<open>
  What \<^verbatim>\<open>fetch\<close> does with the request: it rejects (a network failure, or
  \<^verbatim>\<open>AbortError\<close> when the timer of line 328 aborts it), or it resolves with a
  response, whose \<^verbatim>\<open>text()\<close> and \<^verbatim>\<open>json()\<close> are \<open>None\<close> when they reject.
\<close>

record http_response =
  ok :: bool
  status :: nat
  statusText :: string
  bodyText :: "string option"
  bodyJson :: "prediction_json option"

datatype fetch_result = FetchRejected js_error | FetchResolved http_response

text \<open>
  Lines 325-404. \<open>fileSize\<close> is \<^verbatim>\<open>file.size\<close>. The \<^verbatim>\<open>catch\<close> of line 393 receives
  every error thrown above it, replaces an \<^verbatim>\<open>AbortError\<close> and throws the others
  again. The timer of line 328 ends a request that takes too long, so the promise is
  always settled.
\<close>

definition timeoutMessage :: string where
  "timeoutMessage = ''Request timeout: The cloud server is taking too long to process your file. This might be due to first-time container startup. Please try again in a moment.''"

definition rethrow :: "js_error \<Rightarrow> js_error" where
  "rethrow e = (if name e = ''AbortError'' then Error timeoutMessage else e)"

definition predictTransaction :: "nat \<Rightarrow> fetch_result \<Rightarrow> prediction_json completion" where
  "predictTransaction fileSize fetched =
     (if fileSize = 0 then Thrown (rethrow (Error ''Invalid or empty file''))
      else case fetched of
             FetchRejected e \<Rightarrow> Thrown (rethrow e)
           | FetchResolved response \<Rightarrow>
               if \<not> ok response
               then (let errorText = (case bodyText response of
                                        None \<Rightarrow> ''Could not retrieve error details''
                                      | Some t \<Rightarrow> t)
                     in Thrown (rethrow (Error (''Server error: '' @ showNat (status response) @ '' - '' @
                                  (if errorText \<noteq> [] then errorText else statusText response)))))
               else (case bodyJson response of
                       None \<Rightarrow> Thrown (rethrow (Error ''Invalid response format from server''))
                     | Some data \<Rightarrow> Returned data))"

section \<open>The result reconciler\<close>

text \<open>What the host provides to \<open>processTransactions\<close>.\<close>

record host =
  newDateOf :: date_parser
  today :: string
  now :: int
  unparse :: "row list \<Rightarrow> string"
  fetch :: "string \<Rightarrow> fetch_result"
  typeErrorText :: "string \<Rightarrow> string"

text \<open>
  \<open>newDateOf\<close> is \<^verbatim>\<open>new Date(text)\<close>, \<open>today\<close> is
  \<^verbatim>\<open>new Date().toISOString().slice(0, 10)\<close>, \<open>now\<close> is
  \<^verbatim>\<open>Date.now()\<close>, \<open>unparse\<close> is the CSV text of lines 420-426 for the preprocessed
  rows, \<open>fetch\<close> answers the request whose body is that text, and \<open>typeErrorText\<close>
  is the message of the \<^verbatim>\<open>TypeError\<close> that the engine throws for an expression.
\<close>

definition TypeError :: "host \<Rightarrow> string \<Rightarrow> js_error" where
  "TypeError h expression = \<lparr>name = ''TypeError'', message = typeErrorText h expression\<rparr>"

text \<open>One step after another: the second runs when the first has returned.\<close>

definition andThen ::
  "'a completion \<times> rng \<Rightarrow> ('a \<Rightarrow> rng \<Rightarrow> 'b completion \<times> rng) \<Rightarrow> 'b completion \<times> rng" where
  "andThen step continue =
     (case step of
        (Returned v, g) \<Rightarrow> continue v g
      | (Thrown e, g) \<Rightarrow> (Thrown e, g)
      | (Pending, g) \<Rightarrow> (Pending, g))"

text \<open>
  \<^verbatim>\<open>xs.map(callback)\<close> for a callback that may throw: the first throw ends the loop,
  with the generator as the calls before it left it.
\<close>

fun mapThrowing ::
  "('a \<Rightarrow> rng \<Rightarrow> 'b completion \<times> rng) \<Rightarrow> 'a list \<Rightarrow> rng \<Rightarrow> 'b list completion \<times> rng" where
  "mapThrowing callback [] g = (Returned [], g)"
| "mapThrowing callback (x # xs) g =
     andThen (callback x g) (\<lambda>y g'.
     andThen (mapThrowing callback xs g') (\<lambda>ys g''. (Returned (y # ys), g'')))"

definition truthyValue :: "jsval option \<Rightarrow> jsval option" where
  "truthyValue v = (if truthy v then v else None)"

text \<open>Lines 459-466: the \<^verbatim>\<open>Map\<close> from ids to preprocessed rows.\<close>

definition indexTransaction :: "row \<Rightarrow> (jsval \<rightharpoonup> row) \<Rightarrow> (jsval \<rightharpoonup> row)" where
  "indexTransaction tx originalTransactionMap =
     (case truthyValue (tx ''id'') of
        Some i \<Rightarrow> originalTransactionMap(i \<mapsto> tx)
      | None \<Rightarrow>
          (case truthyValue (tx ''trans_num'') of
             Some t \<Rightarrow> originalTransactionMap(t \<mapsto> tx)
           | None \<Rightarrow> originalTransactionMap))"

definition indexTransactions :: "row list \<Rightarrow> (jsval \<rightharpoonup> row)" where
  "indexTransactions preprocessedData = fold indexTransaction preprocessedData Map.empty"

text \<open>
  Lines 470-488. The argument is an element of a bucket; on \<^verbatim>\<open>null\<close> the read of
  \<^verbatim>\<open>tx.id\<close> in line 472 throws.
\<close>

definition enhanceTransaction ::
  "host \<Rightarrow> (jsval \<rightharpoonup> row) \<Rightarrow> row option \<Rightarrow> string \<Rightarrow> real \<Rightarrow> rng \<Rightarrow> row completion \<times> rng" where
  "enhanceTransaction h originalTransactionMap item riskLevel defaultProb g =
     (case item of
        None \<Rightarrow> (Thrown (TypeError h ''tx.id''), g)
      | Some tx \<Rightarrow>
          (let (txId, g') =
                 (case truthyValue (tx ''id'') of
                    Some i \<Rightarrow> (i, g)
                  | None \<Rightarrow>
                      (case truthyValue (tx ''trans_num'') of
                         Some t \<Rightarrow> (t, g)
                       | None \<Rightarrow>
                           (case truthyValue (tx ''cc_num'') of
                              Some c \<Rightarrow> (c, g)
                            | None \<Rightarrow> (let (r, g') = mathRandom g in (JStr (generatedId r), g')))));
               origTx = (case originalTransactionMap txId of Some original \<Rightarrow> original | None \<Rightarrow> Map.empty)
           in (Returned
                 ((origTx ++ tx)
                    (''id'' \<mapsto> txId,
                     ''merchant'' := js_or (tx ''merchant'')
                                       (js_or (origTx ''merchant'') (Some (JStr ''Unknown Merchant''))),
                     ''amount'' := (case tx ''amt'' of
                                      Some (JNum a) \<Rightarrow> Some (JNum a)
                                    | _ \<Rightarrow> js_or (origTx ''amount'') (Some (JNum 0))),
                     ''date'' := js_or (tx ''date'') (js_or (origTx ''date'') (Some (JStr (today h)))),
                     ''fraud_probability'' := js_or (tx ''fraud_probability'') (Some (JNum defaultProb)),
                     ''risk_level'' \<mapsto> JStr riskLevel)),
               g')))"

text \<open>
  \<^verbatim>\<open>(bucket || []).map(callback)\<close> of lines 491-503: a truthy value that is not an
  array has no \<^verbatim>\<open>map\<close>.
\<close>

definition mapBucket ::
  "host \<Rightarrow> string \<Rightarrow> (row option \<Rightarrow> rng \<Rightarrow> row completion \<times> rng) \<Rightarrow> bucket_json \<Rightarrow> rng \<Rightarrow>
     row list completion \<times> rng" where
  "mapBucket h expression callback transactions g =
     (case transactions of
        NoBucket \<Rightarrow> (Returned [], g)
      | NotAnArray \<Rightarrow> (Thrown (TypeError h expression), g)
      | Items txs \<Rightarrow> mapThrowing callback txs g)"

text \<open>
  Lines 515-539: one call of the \<^verbatim>\<open>forEach\<close> callback. The state is the three
  arrays and the generator.
\<close>

definition classifyTransaction ::
  "risk_distribution \<Rightarrow> real \<Rightarrow> row \<Rightarrow> row list \<times> row list \<times> row list \<times> rng \<Rightarrow>
     row list \<times> row list \<times> row list \<times> rng" where
  "classifyTransaction riskDist totalRisk tx acc =
     (let (highRiskTxs, medRiskTxs, lowRiskTxs, g) = acc;
          (rnd, g) = mathRandom g;
          highThreshold = High riskDist / totalRisk;
          mediumThreshold = highThreshold + Medium riskDist / totalRisk
      in if rnd < highThreshold
         then (let (r, g) = mathRandom g
               in (highRiskTxs @ [tx(''fraud_probability'' \<mapsto> JNum (0.7 + r * 0.3),
                                     ''risk_level'' \<mapsto> JStr ''High'')],
                   medRiskTxs, lowRiskTxs, g))
         else if rnd < mediumThreshold
         then (let (r, g) = mathRandom g
               in (highRiskTxs,
                   medRiskTxs @ [tx(''fraud_probability'' \<mapsto> JNum (0.4 + r * 0.3),
                                    ''risk_level'' \<mapsto> JStr ''Medium'')],
                   lowRiskTxs, g))
         else (let (r, g) = mathRandom g
               in (highRiskTxs, medRiskTxs,
                   lowRiskTxs @ [tx(''fraud_probability'' \<mapsto> JNum (r * 0.4),
                                    ''risk_level'' \<mapsto> JStr ''Low'')],
                   g)))"

text \<open>
  Lines 550-555 and again 567-572: a row with a random probability and a random level.
  The second test draws only when the first one fails.
\<close>

definition randomRisk :: "row \<Rightarrow> rng \<Rightarrow> row \<times> rng" where
  "randomRisk tx g =
     (let (p, g) = mathRandom g;
          (r1, g) = mathRandom g;
          (level, g) = (if r1 > 0.7 then (''High'', g)
                        else (let (r2, g) = mathRandom g
                              in (if r2 > 0.4 then ''Medium'' else ''Low'', g)))
      in (tx(''fraud_probability'' \<mapsto> JNum p, ''risk_level'' \<mapsto> JStr level), g))"

text \<open>
  Modelled from the spec: the interface \<^verbatim>\<open>ApiError\<close> of \<^verbatim>\<open>@/types/transaction\<close>,
  which is not in the sources; the code builds it with a message and a status code.
\<close>

record ApiError =
  message :: string
  statusCode :: nat

record outcome =
  processedTransactions :: "row list"
  error :: "ApiError option"

text \<open>
  Lines 505-560: the three arrays that the buckets gave, the simulated classification
  when all three are empty, and the result.
\<close>

definition assemble ::
  "row list \<Rightarrow> risk_distribution option \<Rightarrow> row list \<Rightarrow> row list \<Rightarrow> row list \<Rightarrow> rng \<Rightarrow>
     outcome \<times> rng" where
  "assemble preprocessedData distribution highRiskTxs medRiskTxs lowRiskTxs g =
     (let (highRiskTxs, medRiskTxs, lowRiskTxs, g) =
            (if highRiskTxs = [] \<and> medRiskTxs = [] \<and> lowRiskTxs = []
             then (let riskDist = (case distribution of
                                     None \<Rightarrow> \<lparr>High = 0, Medium = 0, Low = 0\<rparr>
                                   | Some d \<Rightarrow> d);
                       s = High riskDist + Medium riskDist + Low riskDist;
                       totalRisk = (if s \<noteq> 0 then s else 1)
                   in fold (classifyTransaction riskDist totalRisk) preprocessedData
                        (highRiskTxs, medRiskTxs, lowRiskTxs, g))
             else (highRiskTxs, medRiskTxs, lowRiskTxs, g));
          processed = highRiskTxs @ medRiskTxs @ lowRiskTxs
      in if processed = []
         then (let (fallbackTxs, g) = mapRandom randomRisk preprocessedData g
               in (\<lparr>processedTransactions = fallbackTxs, error = None\<rparr>, g))
         else (\<lparr>processedTransactions = processed, error = None\<rparr>, g))"

text \<open>
  Lines 459-560: what follows a prediction that arrived. Reading a property of
  \<^verbatim>\<open>null\<close> throws in line 491.
\<close>

definition reconcile ::
  "host \<Rightarrow> row list \<Rightarrow> prediction_json \<Rightarrow> rng \<Rightarrow> outcome completion \<times> rng" where
  "reconcile h preprocessedData prediction g =
     (let originalTransactionMap = indexTransactions preprocessedData;
          enhance = enhanceTransaction h originalTransactionMap
      in case prediction of
           JsonNull \<Rightarrow> (Thrown (TypeError h ''prediction.highRiskTransactions''), g)
         | JsonObject p \<Rightarrow>
             andThen (mapBucket h ''prediction.highRiskTransactions.map''
                        (\<lambda>tx. enhance tx ''High'' 0.8) (highRiskTransactions p) g)
               (\<lambda>highRiskTxs g.
             andThen (mapBucket h ''prediction.mediumRiskTransactions.map''
                        (\<lambda>tx. enhance tx ''Medium'' 0.5) (mediumRiskTransactions p) g)
               (\<lambda>medRiskTxs g.
             andThen (mapBucket h ''prediction.lowRiskTransactions.map''
                        (\<lambda>tx. enhance tx ''Low'' 0.2) (lowRiskTransactions p) g)
               (\<lambda>lowRiskTxs g.
                  (let (result, g) = assemble preprocessedData (riskDistribution p)
                                       highRiskTxs medRiskTxs lowRiskTxs g
                   in (Returned result, g))))))"

section \<open>Demo transactions\<close>

text \<open>Lines 669-701. An array read outside its bounds gives \<^verbatim>\<open>undefined\<close>.\<close>

definition riskLevels :: "string list" where
  "riskLevels = [''Low'', ''Medium'', ''High'']"

definition merchants :: "string list" where
  "merchants = [''Amazon'', ''Walmart'', ''Target'', ''Best Buy'', ''Apple Store'',
                ''Gas Station'', ''Restaurant'', ''Hotel'', ''Airlines'', ''Online Service'']"

definition element :: "string list \<Rightarrow> int \<Rightarrow> jsval option" where
  "element xs i = (if 0 \<le> i \<and> nat i < length xs then Some (JStr (xs ! nat i)) else None)"

definition mockTransaction :: "host \<Rightarrow> nat \<Rightarrow> rng \<Rightarrow> row \<times> rng" where
  "mockTransaction h i g =
     (let (r, g) = mathRandom g;
          riskLevel = element riskLevels \<lfloor>r * real (length riskLevels)\<rfloor>;
          (r, g) = mathRandom g;
          fraudProbability = (if riskLevel = Some (JStr ''High'') then r * 0.3 + 0.7
                              else if riskLevel = Some (JStr ''Medium'') then r * 0.3 + 0.4
                              else r * 0.4);
          (rc, g) = mathRandom g;
          (ra, g) = mathRandom g;
          (rb, g) = mathRandom g;
          (rm, g) = mathRandom g;
          (rk, g) = mathRandom g
      in (Map.empty
            (''id'' \<mapsto> JStr (''TX-'' @ showNat (1000 + i)),
             ''cc_num'' \<mapsto> JStr (take 16 (''4532'' @ showInt \<lfloor>1000000000000000 + rc * 9000000000000000\<rfloor>)),
             ''amount'' \<mapsto> JNum (real_of_int \<lfloor>ra * 1000 * 100 + 1 / 2\<rfloor> / 100),
             ''amt'' \<mapsto> JNum (real_of_int \<lfloor>rb * 1000 * 100 + 1 / 2\<rfloor> / 100),
             ''date'' \<mapsto> JStr (today h),
             ''unix_time'' \<mapsto> JNum (real_of_int (now h div 1000)),
             ''merchant'' := element merchants \<lfloor>rm * real (length merchants)\<rfloor>,
             ''category_1'' := element merchants \<lfloor>rk * real (length merchants)\<rfloor>,
             ''risk_level'' := riskLevel,
             ''fraud_probability'' \<mapsto> JNum fraudProbability),
          g))"

definition generateMockTransactions :: "host \<Rightarrow> nat \<Rightarrow> rng \<Rightarrow> row list \<times> rng" where
  "generateMockTransactions h count g = mapRandom (mockTransaction h) [0 ..< count] g"

section \<open>The orchestration\<close>

definition USE_DEMO_DATA_ON_ERROR :: bool where
  "USE_DEMO_DATA_ON_ERROR = True"

text \<open>
  \<^verbatim>\<open>try { body } catch (e) { handler }\<close>: the handler receives the value thrown, with
  the generator as it was at the throw. A body that waits for a promise that is never
  settled never ends.
\<close>

definition tryCatch ::
  "'a completion \<times> rng \<Rightarrow> (js_error \<Rightarrow> rng \<Rightarrow> 'a completion \<times> rng) \<Rightarrow> 'a completion \<times> rng" where
  "tryCatch body handler =
     (case body of
        (Thrown e, g) \<Rightarrow> handler e g
      | (Returned v, g) \<Rightarrow> (Returned v, g)
      | (Pending, g) \<Rightarrow> (Pending, g))"

text \<open>
  Lines 453-560, the body of the innermost \<^verbatim>\<open>try\<close>. The verification parse of
  lines 436-451 only logs and is left out.
\<close>

definition predictAndReconcile :: "host \<Rightarrow> row list \<Rightarrow> rng \<Rightarrow> outcome completion \<times> rng" where
  "predictAndReconcile h preprocessedData g =
     (let csv = unparse h preprocessedData
      in andThen (predictTransaction (length csv) (fetch h csv), g)
           (\<lambda>prediction g. reconcile h preprocessedData prediction g))"

text \<open>Lines 561-590, the handler of the innermost \<^verbatim>\<open>try\<close>.\<close>

definition predictionFailed :: "row list \<Rightarrow> js_error \<Rightarrow> rng \<Rightarrow> outcome completion \<times> rng" where
  "predictionFailed preprocessedData e g =
     (if USE_DEMO_DATA_ON_ERROR
      then (let (processedUploadedData, g') = mapRandom randomRisk preprocessedData g
            in (Returned \<lparr>processedTransactions = processedUploadedData,
                     error = Some \<lparr>message = ''Apache Spark cluster error: '' @ js_error.message e @
                                     ''. Using Dask for local processing with simulated fraud probabilities.'',
                                   statusCode = 500\<rparr>\<rparr>, g'))
      else (Returned \<lparr>processedTransactions = [],
                 error = Some \<lparr>message = ''Apache Spark backend service error: '' @ js_error.message e @
                                 ''. Please try again or use the demo data option.'',
                               statusCode = 500\<rparr>\<rparr>, g))"

text \<open>Lines 591-600, the handler of the middle \<^verbatim>\<open>try\<close>.\<close>

definition csvFailed :: "js_error \<Rightarrow> rng \<Rightarrow> outcome completion \<times> rng" where
  "csvFailed csvError g =
     (Returned \<lparr>processedTransactions = [],
           error = Some \<lparr>message = ''Invalid CSV format for Spark/Dask processing: '' @ js_error.message csvError,
                         statusCode = 400\<rparr>\<rparr>, g)"

text \<open>Lines 601-623, the handler of the outermost \<^verbatim>\<open>try\<close>.\<close>

definition generalFailure :: "host \<Rightarrow> js_error \<Rightarrow> rng \<Rightarrow> outcome completion \<times> rng" where
  "generalFailure h e g =
     (if USE_DEMO_DATA_ON_ERROR
      then (let (demoTransactions, g') = generateMockTransactions h 50 g
            in (Returned \<lparr>processedTransactions = demoTransactions,
                     error = Some \<lparr>message = ''Error with Spark cluster: '' @ js_error.message e @
                                     ''. Using Dask-powered demo data instead.'',
                                   statusCode = 500\<rparr>\<rparr>, g'))
      else (Returned \<lparr>processedTransactions = [],
                 error = Some \<lparr>message = ''Error in Spark/Dask distributed processing pipeline: '' @
                                 js_error.message e @ ''. Please try again or use the demo data option.'',
                               statusCode = 500\<rparr>\<rparr>, g))"

text \<open>
  Lines 406-624: the promise of \<^verbatim>\<open>processTransactions\<close>. \<open>Returned\<close> is the value
  it resolves with, \<open>Thrown\<close> the reason it would reject with.
\<close>

definition processTransactions ::
  "host \<Rightarrow> parse_event list \<Rightarrow> rng \<Rightarrow> outcome completion \<times> rng" where
  "processTransactions h file g =
     tryCatch
       (tryCatch
          (andThen (processCSV (newDateOf h) file g)
             (\<lambda>preprocessedData g'.
                tryCatch (predictAndReconcile h preprocessedData g')
                         (predictionFailed preprocessedData)))
          csvFailed)
       (generalFailure h)"

section \<open>The aggregate view\<close>

text \<open>
  Modelled from the spec: the interface \<^verbatim>\<open>ProcessedTransaction\<close> of
  \<^verbatim>\<open>@/types/transaction\<close>, which is not in the sources. The aggregate reads its
  \<^verbatim>\<open>risk_level\<close>, a string; the other fields are the rest of the record.
\<close>

record ProcessedTransaction =
  risk_level :: string
  fraud_probability :: real

text \<open>
  The value of a counter: a number, or \<^verbatim>\<open>NaN\<close> after \<^verbatim>\<open>++\<close> on a property that
  was not a number.
\<close>

datatype counter = Count nat | NaN

fun increment :: "counter \<Rightarrow> counter" where
  "increment (Count n) = Count (n + 1)"
| "increment NaN = NaN"

text \<open>
  The own properties of \<^verbatim>\<open>riskCounts\<close> in the order of \<^verbatim>\<open>Object.entries\<close>: the
  keys that are array indices first, in ascending order, then the other keys in the
  order of their creation.
\<close>

definition isArrayIndex :: "string \<Rightarrow> bool" where
  "isArrayIndex key =
     (key \<noteq> [] \<and> list_all isDigit key \<and> (key = ''0'' \<or> hd key \<noteq> CHR ''0'') \<and>
      digitsVal key \<le> 4294967294)"

fun insertIndex :: "string \<Rightarrow> counter \<Rightarrow> (string \<times> counter) list \<Rightarrow> (string \<times> counter) list" where
  "insertIndex key v [] = [(key, v)]"
| "insertIndex key v ((k, w) # rest) =
     (if isArrayIndex k \<and> digitsVal k < digitsVal key
      then (k, w) # insertIndex key v rest
      else (key, v) # (k, w) # rest)"

definition createProperty :: "string \<Rightarrow> counter \<Rightarrow> (string \<times> counter) list \<Rightarrow> (string \<times> counter) list" where
  "createProperty key v object =
     (if isArrayIndex key then insertIndex key v object else object @ [(key, v)])"

text \<open>
  \<^verbatim>\<open>riskCounts[key]++\<close>. A key that is not an own property reads as
  \<^verbatim>\<open>undefined\<close> or as a function of \<^verbatim>\<open>Object.prototype\<close>, so the sum is
  \<^verbatim>\<open>NaN\<close>; the assignment creates the property, but for \<^verbatim>\<open>__proto__\<close>, whose
  setter ignores a number.
\<close>

definition countRisk :: "string \<Rightarrow> (string \<times> counter) list \<Rightarrow> (string \<times> counter) list" where
  "countRisk key riskCounts =
     (case map_of riskCounts key of
        Some v \<Rightarrow> map (\<lambda>(k, w). if k = key then (k, increment w) else (k, w)) riskCounts
      | None \<Rightarrow> if key = ''__proto__'' then riskCounts else createProperty key NaN riskCounts)"

text \<open>Lines 627-644; an entry is the pair of \<^verbatim>\<open>name\<close> and \<^verbatim>\<open>value\<close>.\<close>

definition calculateRiskDistribution ::
  "'a ProcessedTransaction_scheme list \<Rightarrow> (string \<times> counter) list" where
  "calculateRiskDistribution transactions =
     fold (\<lambda>tx riskCounts. countRisk (risk_level tx) riskCounts) transactions
       [(''Low'', Count 0), (''Medium'', Count 0), (''High'', Count 0)]"

section \<open>Properties of rows\<close>

text \<open>
  The keys of the thirteen category flags and of the fifty state flags, the flags of a
  row that are 1 and those that are 0. A group of flags is one-hot when exactly one is 1
  and every other one is 0.
\<close>

definition categoryKeys :: "string list" where
  "categoryKeys = map categoryKey [1 ..< 14]"

definition stateKeys :: "string list" where
  "stateKeys = map stateKey states"

definition flagsOn :: "row \<Rightarrow> string list \<Rightarrow> string list" where
  "flagsOn r keys = filter (\<lambda>key. r key = Some (JNum 1)) keys"

definition flagsOff :: "row \<Rightarrow> string list \<Rightarrow> string list" where
  "flagsOff r keys = filter (\<lambda>key. r key = Some (JNum 0)) keys"

definition oneHot :: "row \<Rightarrow> string list \<Rightarrow> bool" where
  "oneHot r keys = (length (flagsOn r keys) = 1 \<and> length (flagsOff r keys) + 1 = length keys)"

text \<open>
  The category rule in the words of the specification: an ordered list of keyword
  groups, the first group with a keyword inside the lower-cased field wins, and
  category 1 is the default.
\<close>

definition keywordGroups :: "(string list \<times> nat) list" where
  "keywordGroups =
     [([''grocery''], 1), ([''gas'', ''transport''], 2), ([''entertain''], 3), ([''misc''], 4),
      ([''health''], 5), ([''food'', ''dining''], 6), ([''shop''], 7), ([''personal''], 8),
      ([''home''], 9), ([''kids''], 10), ([''travel''], 11), ([''service''], 12)]"

definition specCategory :: "string option \<Rightarrow> nat" where
  "specCategory field =
     (case field of
        None \<Rightarrow> 1
      | Some c \<Rightarrow>
          (case find (\<lambda>(keywords, n). list_ex (strIncludes (toLowerCase c)) keywords) keywordGroups of
             None \<Rightarrow> 1
           | Some (keywords, n) \<Rightarrow> n))"

text \<open>The number that lines 166-167 compute from the text of the amount.\<close>

definition amountValue :: "string \<Rightarrow> real" where
  "amountValue a = (case parseFloat (stripAmount a) of None \<Rightarrow> 0 | Some x \<Rightarrow> x)"

text \<open>The number of transactions of a level.\<close>

definition countLevel :: "string \<Rightarrow> 'a ProcessedTransaction_scheme list \<Rightarrow> nat" where
  "countLevel level transactions = length (filter (\<lambda>tx. risk_level tx = level) transactions)"

text \<open>
  A reconciled row: the preprocessed row with a probability and the given level, and
  with any probability and one of the three levels.
\<close>

definition classifiedAs :: "string \<Rightarrow> row \<Rightarrow> row \<Rightarrow> bool" where
  "classifiedAs level r tx =
     (\<exists>p. r = tx(''fraud_probability'' \<mapsto> JNum p, ''risk_level'' \<mapsto> JStr level))"

definition randomlyRated :: "row \<Rightarrow> row \<Rightarrow> bool" where
  "randomlyRated r tx =
     (\<exists>p level. level \<in> {''High'', ''Medium'', ''Low''} \<and>
                r = tx(''fraud_probability'' \<mapsto> JNum p, ''risk_level'' \<mapsto> JStr level))"

text \<open>
  The simulated classification in the words of the specification. The proportions of
  High and of Medium are their counts divided by the sum of the three counts, or by 1
  when there is no distribution or the sum is 0. A draw below the proportion of High
  gives High, a draw below the sum of the two proportions gives Medium, any other draw
  gives Low. A second draw places the probability in the band of the level.
\<close>

definition proportions :: "risk_distribution option \<Rightarrow> real \<times> real" where
  "proportions distribution =
     (case distribution of
        None \<Rightarrow> (0, 0)
      | Some d \<Rightarrow>
          (if High d + Medium d + Low d = 0 then (High d, Medium d)
           else (High d / (High d + Medium d + Low d), Medium d / (High d + Medium d + Low d))))"

definition drawnLevel :: "real \<times> real \<Rightarrow> real \<Rightarrow> string" where
  "drawnLevel shares rnd =
     (if rnd < fst shares then ''High''
      else if rnd < fst shares + snd shares then ''Medium''
      else ''Low'')"

definition drawnProbability :: "string \<Rightarrow> real \<Rightarrow> real" where
  "drawnProbability level r =
     (if level = ''High'' then 0.7 + r * 0.3
      else if level = ''Medium'' then 0.4 + r * 0.3
      else r * 0.4)"

text \<open>
  The rows in their order, each with its level: the row at position \<open>i\<close> takes the
  draw \<open>2 * i\<close> for its level and the draw \<open>2 * i + 1\<close> for its probability.
\<close>

fun simulated :: "real \<times> real \<Rightarrow> rng \<Rightarrow> row list \<Rightarrow> (string \<times> row) list" where
  "simulated shares g [] = []"
| "simulated shares g (tx # rows) =
     (drawnLevel shares (g 0),
      tx(''fraud_probability'' \<mapsto> JNum (drawnProbability (drawnLevel shares (g 0)) (g 1)),
         ''risk_level'' \<mapsto> JStr (drawnLevel shares (g 0)))) #
     simulated shares (\<lambda>n. g (n + 2)) rows"

definition ofLevel :: "string \<Rightarrow> (string \<times> row) list \<Rightarrow> row list" where
  "ofLevel level classified = map snd (filter (\<lambda>x. fst x = level) classified)"

definition emptyBucket :: "bucket_json \<Rightarrow> bool" where
  "emptyBucket transactions = (transactions = NoBucket \<or> transactions = Items [])"

text \<open>
  Inputs for the examples: a host that parses no date, generators whose draws are all 0
  or all one half, or begin with given draws, a host whose request fails and one whose
  service answers.
\<close>

definition noDates :: date_parser where
  "noDates t = None"

definition zeroDraws :: rng where
  "zeroDraws n = 0"

definition halfDraws :: rng where
  "halfDraws n = 1 / 2"

definition drawsFrom :: "real list \<Rightarrow> rng" where
  "drawsFrom xs n = (if n < length xs then xs ! n else 0)"

definition exampleHost :: host where
  "exampleHost =
     \<lparr>newDateOf = noDates, today = ''2025-05-01'', now = 0,
      unparse = (\<lambda>rows. ''id''), fetch = (\<lambda>body. FetchRejected (Error ''Failed to fetch'')),
      typeErrorText = (\<lambda>expression. ''Cannot read properties of '' @ expression)\<rparr>"

definition answering :: "prediction_json \<Rightarrow> host" where
  "answering body =
     exampleHost\<lparr>fetch := (\<lambda>text. FetchResolved
        \<lparr>ok = True, status = 200, statusText = ''OK'', bodyText = None, bodyJson = Some body\<rparr>)\<rparr>"

definition answeringHost :: host where
  "answeringHost =
     answering (JsonObject \<lparr>highRiskTransactions = Items [Some [''id'' \<mapsto> JStr ''t1'']],
                            mediumRiskTransactions = Items [], lowRiskTransactions = Items [],
                            riskDistribution = None\<rparr>)"
section \<open>The normalizer: flags and amount\<close>

lemma truthyField_None [simp]: "row key = None \<Longrightarrow> truthyField row key = None"
  by (simp add: truthyField_def)

lemma truthyField_Some [simp]:
  "row key = Some s \<Longrightarrow> truthyField row key = (if s = [] then None else Some s)"
  by (simp add: truthyField_def)

lemma truthyField_SomeD: "truthyField row key = Some s \<Longrightarrow> row key = Some s \<and> s \<noteq> []"
  by (auto simp: truthyField_def split: option.splits if_splits)

lemma truthyField_NoneD: "truthyField row key = None \<Longrightarrow> row key = None \<or> row key = Some []"
  by (auto simp: truthyField_def split: option.splits if_splits)

lemma preprocessRow_steps:
  "fst (preprocessRow newDate row g) =
     setAge row (setState row (setGender row (setCategory row (fixDate newDate row
       (fixAmount row (fixCcNum row (fst (setId row g (deleteColumns (copyRow row))))))))))"
  by (simp add: preprocessRow_def Let_def split: prod.splits)

lemma fold_upd_const:
  "fold (\<lambda>x p. p(f x \<mapsto> v)) xs p key = (if key \<in> f ` set xs then Some v else p key)"
  by (induction xs arbitrary: p) auto

lemma initStates_apply:
  "initStates p key = (if key \<in> stateKey ` set states then Some (JNum 0) else p key)"
  by (simp add: initStates_def fold_upd_const)

lemma initCategories_apply:
  "initCategories p key = (if key \<in> categoryKey ` {1 ..< 14} then Some (JNum 0) else p key)"
  by (simp add: initCategories_def fold_upd_const)

lemma categoryKeys_list:
  "categoryKeys =
     [''category_1'', ''category_2'', ''category_3'', ''category_4'', ''category_5'',
      ''category_6'', ''category_7'', ''category_8'', ''category_9'', ''category_10'',
      ''category_11'', ''category_12'', ''category_13'']"
  by (simp add: categoryKeys_def categoryKey_def upt_rec showNat.simps digitChar_def)

lemma stateKey_inj [simp]: "stateKey a = stateKey b \<longleftrightarrow> a = b"
  by (simp add: stateKey_def)

lemma distinct_states: "distinct states"
  by (simp add: states_def)

lemma setAge_other: "key \<noteq> ''age'' \<Longrightarrow> setAge row p key = p key"
  by (simp add: setAge_def)

lemma setGender_other: "key \<noteq> ''gender_M'' \<Longrightarrow> setGender row p key = p key"
  by (simp add: setGender_def split: option.splits)

lemma fixDate_other:
  "key \<notin> {''date'', ''trans_date_trans_time'', ''transaction_hour'', ''year'', ''month'',
            ''day'', ''hour'', ''unix_time''} \<Longrightarrow> fixDate newDate row p key = p key"
  by (simp add: fixDate_def Let_def split: option.splits)

lemma fixAmount_other: "key \<noteq> ''amt'' \<Longrightarrow> key \<noteq> ''amount'' \<Longrightarrow> fixAmount row p key = p key"
  by (simp add: fixAmount_def Let_def split: option.splits)

lemma fixCcNum_other: "key \<noteq> ''cc_num'' \<Longrightarrow> fixCcNum row p key = p key"
  by (simp add: fixCcNum_def split: option.splits)

lemma setId_other: "key \<noteq> ''id'' \<Longrightarrow> key \<noteq> ''trans_num'' \<Longrightarrow> fst (setId row g p) key = p key"
  by (simp add: setId_def Let_def split: option.splits prod.splits)

lemma copied_field:
  "\<not> dropColumn key \<Longrightarrow> deleteColumns (copyRow row) key = map_option JStr (row key)"
  by (simp add: deleteColumns_def copyRow_def)


lemma dropColumn_state: "\<not> dropColumn ''state''"
  by (simp add: dropColumn_def isNumericString_def trim_def isWhiteSpace_def
        isNonDecimalIntegerLiteral_def isDecimalLiteral_def isUnsignedDecimalLiteral_def
        isDigit_def startsWith_def)

lemma dropColumn_amt: "\<not> dropColumn ''amt''"
  by (simp add: dropColumn_def isNumericString_def trim_def isWhiteSpace_def
        isNonDecimalIntegerLiteral_def isDecimalLiteral_def isUnsignedDecimalLiteral_def
        isDigit_def startsWith_def)

lemma dropColumn_amount: "\<not> dropColumn ''amount''"
  by (simp add: dropColumn_def isNumericString_def trim_def isWhiteSpace_def
        isNonDecimalIntegerLiteral_def isDecimalLiteral_def isUnsignedDecimalLiteral_def
        isDigit_def startsWith_def)

lemma setState_other: "\<not> prefix ''state_'' key \<Longrightarrow> setState row p key = p key"
proof -
  assume a: "\<not> prefix ''state_'' key"
  have n: "key \<notin> stateKey ` set states"
    using a by (auto simp: stateKey_def)
  have m: "markState s q key = q key" for s q
    using a by (auto simp: markState_def Let_def stateKey_def)
  have ca: "key \<noteq> ''state_CA''" using a by auto
  show ?thesis
    using n ca by (simp add: setState_def Let_def m initStates_apply split: option.splits jsval.splits)
qed

lemma categoryKey_numerals:
  "categoryKey 1 = ''category_1''" "categoryKey 2 = ''category_2''"
  "categoryKey 3 = ''category_3''" "categoryKey 4 = ''category_4''"
  "categoryKey 5 = ''category_5''" "categoryKey 6 = ''category_6''"
  "categoryKey 7 = ''category_7''" "categoryKey 8 = ''category_8''"
  "categoryKey 9 = ''category_9''" "categoryKey 10 = ''category_10''"
  "categoryKey 11 = ''category_11''" "categoryKey 12 = ''category_12''"
  "categoryKey 13 = ''category_13''" "categoryKey (Suc 0) = ''category_1''"
  by (simp_all add: categoryKey_def showNat.simps digitChar_def)

lemma specCategory_empty: "specCategory (Some []) = 1"
  by (simp add: specCategory_def keywordGroups_def toLowerCase_def)

lemma setCategory_spec:
  "setCategory row p = (initCategories p)(categoryKey (specCategory (row ''category'')) \<mapsto> JNum 1)"
proof (cases "row ''category''")
  case None
  then show ?thesis
    by (simp add: setCategory_def specCategory_def categoryKey_numerals)
next
  case (Some c)
  show ?thesis
  proof (cases "c = []")
    case True
    with Some show ?thesis
      by (simp add: setCategory_def specCategory_empty categoryKey_numerals)
  next
    case False
    with Some show ?thesis
      by (simp add: setCategory_def specCategory_def keywordGroups_def Let_def
            categoryKey_numerals)
  qed
qed

lemma specCategory_range: "specCategory field \<in> {1 ..< 13}"
  by (simp add: specCategory_def keywordGroups_def split: option.splits)

lemma setCategory_other: "\<not> prefix ''category_'' key \<Longrightarrow> setCategory row p key = p key"
  by (auto simp: setCategory_spec initCategories_apply categoryKey_def)

lemma distinct_categoryKeys: "distinct categoryKeys"
  by (simp add: categoryKeys_list)

lemma categoryKey_eq_iff:
  "i \<in> {1 ..< 14} \<Longrightarrow> j \<in> {1 ..< 14} \<Longrightarrow> categoryKey i = categoryKey j \<longleftrightarrow> i = j"
proof -
  have "inj_on categoryKey (set [1 ..< 14])"
    using distinct_categoryKeys unfolding categoryKeys_def by (simp add: distinct_map)
  then show "i \<in> {1 ..< 14} \<Longrightarrow> j \<in> {1 ..< 14} \<Longrightarrow> categoryKey i = categoryKey j \<longleftrightarrow> i = j"
    by (auto simp: inj_on_def)
qed

lemma categoryKey_not_later:
  "categoryKey i \<noteq> ''age''" "\<not> prefix ''state_'' (categoryKey i)" "categoryKey i \<noteq> ''gender_M''"
  by (simp_all add: categoryKey_def)

lemma preprocessRow_category_flag:
  assumes "i \<in> {1 ..< 14}"
  shows "fst (preprocessRow newDate row g) (categoryKey i) =
           Some (JNum (if i = specCategory (row ''category'') then 1 else 0))"
proof -
  let ?j = "specCategory (row ''category'')"
  have j: "?j \<in> {1 ..< 14}"
    using specCategory_range [of "row ''category''"] by auto
  have "fst (preprocessRow newDate row g) (categoryKey i) =
          setCategory row (fixDate newDate row (fixAmount row (fixCcNum row
            (fst (setId row g (deleteColumns (copyRow row))))))) (categoryKey i)"
    by (simp add: preprocessRow_steps setAge_other setState_other setGender_other
          categoryKey_not_later)
  also have "\<dots> = Some (JNum (if i = ?j then 1 else 0))"
    using assms categoryKey_eq_iff [OF assms j]
    by (simp add: setCategory_spec initCategories_apply)
  finally show ?thesis .
qed

lemma stateKey_not_age: "stateKey c \<noteq> ''age''"
  by (simp add: stateKey_def)

lemma state_not_stateKey: "''state'' \<notin> stateKey ` A"
  by (auto simp: stateKey_def)

lemma before_setState_state:
  "setGender row (setCategory row (fixDate newDate row (fixAmount row (fixCcNum row
     (fst (setId row g (deleteColumns (copyRow row)))))))) ''state'' = map_option JStr (row ''state'')"
  by (simp add: setGender_other setCategory_other fixDate_other fixAmount_other fixCcNum_other
        setId_other copied_field dropColumn_state)

lemma markState_apply:
  "markState s p (stateKey c) =
     (if toUpperCase s \<in> set states \<and> c = toUpperCase s then Some (JNum 1) else p (stateKey c))"
  by (simp add: markState_def Let_def)

lemma stateKey_CA: "stateKey ''CA'' = ''state_CA''"
  by (simp add: stateKey_def)

lemma setState_flag:
  assumes "c \<in> set states" and "p ''state'' = map_option JStr (row ''state'')"
  shows "setState row p (stateKey c) =
           Some (JNum (if (case truthyField row ''state'' of None \<Rightarrow> c = ''CA''
                           | Some s \<Rightarrow> c = toUpperCase s) then 1 else 0))"
proof (cases "truthyField row ''state''")
  case None
  then have "\<not> truthy (map_option JStr (row ''state''))"
    by (auto dest: truthyField_NoneD)
  then have "\<not> truthy (initStates p ''state'')"
    using assms(2) by (simp add: initStates_apply state_not_stateKey)
  with None assms(1) show ?thesis
    by (simp add: setState_def Let_def initStates_apply flip: stateKey_CA)
next
  case (Some s)
  with assms(1) show ?thesis
    by (auto simp: setState_def Let_def markState_apply initStates_apply)
qed

lemma preprocessRow_state_flag:
  assumes "c \<in> set states"
  shows "fst (preprocessRow newDate row g) (stateKey c) =
           Some (JNum (if (case truthyField row ''state'' of None \<Rightarrow> c = ''CA''
                           | Some s \<Rightarrow> c = toUpperCase s) then 1 else 0))"
proof -
  let ?p = "setGender row (setCategory row (fixDate newDate row (fixAmount row (fixCcNum row
              (fst (setId row g (deleteColumns (copyRow row))))))))"
  have "?p ''state'' = map_option JStr (row ''state'')"
    by (rule before_setState_state)
  from setState_flag [where p = ?p and row = row, OF assms this] show ?thesis
    by (simp add: preprocessRow_steps setAge_other stateKey_not_age)
qed

lemma flagsOn_indicator:
  assumes "distinct keys" and "k0 \<in> set keys"
    and "\<And>key. key \<in> set keys \<Longrightarrow> r key = Some (JNum (if key = k0 then 1 else 0))"
  shows "flagsOn r keys = [k0]" and "length (flagsOff r keys) + 1 = length keys"
proof -
  have on: "filter (\<lambda>key. r key = Some (JNum 1)) keys = filter (\<lambda>key. key = k0) keys"
    by (rule filter_cong) (auto simp: assms(3))
  have off: "filter (\<lambda>key. r key = Some (JNum 0)) keys = filter (\<lambda>key. key \<noteq> k0) keys"
    by (rule filter_cong) (auto simp: assms(3))
  have one: "filter (\<lambda>key. key = k0) xs = [k0]" if "distinct xs" "k0 \<in> set xs" for xs
    using that by (induction xs) (auto simp: filter_empty_conv)
  show "flagsOn r keys = [k0]"
    by (simp add: flagsOn_def on one assms)
  have "length (filter (\<lambda>key. key = k0) keys) + length (filter (\<lambda>key. key \<noteq> k0) keys) = length keys"
    using sum_length_filter_compl [of "\<lambda>key. key = k0" keys] by simp
  then show "length (flagsOff r keys) + 1 = length keys"
    by (simp add: flagsOff_def off one assms)
qed

lemma flags_all_zero:
  assumes "\<And>key. key \<in> set keys \<Longrightarrow> r key = Some (JNum 0)"
  shows "flagsOn r keys = []" and "flagsOff r keys = keys"
  using assms by (simp_all add: flagsOn_def flagsOff_def filter_empty_conv)

lemma oneHot_indicator:
  assumes "distinct keys" and "k0 \<in> set keys"
    and "\<And>key. key \<in> set keys \<Longrightarrow> r key = Some (JNum (if key = k0 then 1 else 0))"
  shows "oneHot r keys"
  using flagsOn_indicator [OF assms] by (simp add: oneHot_def)

lemma distinct_stateKeys: "distinct stateKeys"
  by (simp add: stateKeys_def distinct_map distinct_states inj_on_def)

lemma category_flags_spec:
  "flagsOn (fst (preprocessRow newDate row g)) categoryKeys = [categoryKey (specCategory (row ''category''))]"
  "oneHot (fst (preprocessRow newDate row g)) categoryKeys"
proof -
  let ?r = "fst (preprocessRow newDate row g)"
  let ?j = "specCategory (row ''category'')"
  have j: "?j \<in> {1 ..< 14}"
    using specCategory_range [of "row ''category''"] by auto
  then have k0: "categoryKey ?j \<in> set categoryKeys"
    by (simp add: categoryKeys_def)
  have ind: "?r key = Some (JNum (if key = categoryKey ?j then 1 else 0))"
    if "key \<in> set categoryKeys" for key
  proof -
    from that obtain i where i: "i \<in> {1 ..< 14}" and key: "key = categoryKey i"
      by (auto simp: categoryKeys_def)
    show ?thesis
      using preprocessRow_category_flag [OF i, of newDate row g] categoryKey_eq_iff [OF i j]
      by (simp add: key)
  qed
  show "flagsOn ?r categoryKeys = [categoryKey ?j]"
    by (rule flagsOn_indicator [OF distinct_categoryKeys k0 ind])
  show "oneHot ?r categoryKeys"
    by (rule oneHot_indicator [OF distinct_categoryKeys k0 ind])
qed

lemma preprocessRow_amt:
  "fst (preprocessRow newDate row g) ''amt'' =
     fixAmount row (fixCcNum row (fst (setId row g (deleteColumns (copyRow row))))) ''amt''"
  "fst (preprocessRow newDate row g) ''amount'' =
     fixAmount row (fixCcNum row (fst (setId row g (deleteColumns (copyRow row))))) ''amount''"
  by (simp_all add: preprocessRow_steps setAge_other setState_other setGender_other
        setCategory_other fixDate_other)

lemma preprocessRow_amt_present:
  assumes "row ''amt'' = Some a" and "a \<noteq> []"
  shows "fst (preprocessRow newDate row g) ''amt'' = Some (JNum (amountValue a))"
    and "fst (preprocessRow newDate row g) ''amount'' = Some (JNum (amountValue a))"
  using assms by (simp_all add: preprocessRow_amt fixAmount_def Let_def amountValue_def)

lemma preprocessRow_amt_absent:
  assumes "truthyField row ''amt'' = None"
  shows "fst (preprocessRow newDate row g) ''amt'' = map_option JStr (row ''amt'')"
    and "fst (preprocessRow newDate row g) ''amount'' = map_option JStr (row ''amount'')"
  using assms
  by (simp_all add: preprocessRow_amt fixAmount_def fixCcNum_other setId_other copied_field
        dropColumn_amt dropColumn_amount)

lemma parseFloat_nonneg: "parseFloat s = Some x \<Longrightarrow> 0 \<le> x"
  by (auto simp: parseFloat_def Let_def split: if_splits)

lemma amountValue_nonneg: "0 \<le> amountValue a"
  by (auto simp: amountValue_def dest: parseFloat_nonneg split: option.splits)

lemma amountValue_examples:
  "amountValue ''1,234.56abc'' = 1234.56" "amountValue ''garbage'' = 0"
  by (simp_all add: amountValue_def stripAmount_def parseFloat_def isDigit_def digitsVal_def digitVal_def)

lemma parseFloat_examples:
  "parseFloat (stripAmount ''garbage'') = None" "parseFloat (stripAmount []) = None"
  "parseFloat (stripAmount ''$12.50'') = Some 12.5"
  by (simp_all add: stripAmount_def parseFloat_def isDigit_def digitsVal_def digitVal_def)

text \<open>
  Claim C7, as amended. The claim gives the rule for every input: remove every character
  but the digits and the dot, parse the rest as a float, take 0 when that fails, and
  store the number under both \<^verbatim>\<open>amt\<close> and \<^verbatim>\<open>amount\<close>. Line 165 applies it only
  when \<^verbatim>\<open>row.amt\<close> is truthy, that is, a non-empty text: then the rule holds, and
  the text \<^verbatim>\<open>1,234.56abc\<close> gives 1234.56 and \<^verbatim>\<open>garbage\<close> gives 0. When
  \<^verbatim>\<open>amt\<close> is absent or empty nothing is parsed and nothing is stored: both fields
  stay as the raw row has them.
\<close>

theorem amount_normalization:
  "(\<forall>a. row ''amt'' = Some a \<and> a \<noteq> [] \<longrightarrow>
      fst (preprocessRow newDate row g) ''amt'' =
        Some (JNum (case parseFloat (filter (\<lambda>c. isDigit c \<or> c = CHR ''.'') a) of
                      None \<Rightarrow> 0 | Some x \<Rightarrow> x)) \<and>
      fst (preprocessRow newDate row g) ''amount'' = fst (preprocessRow newDate row g) ''amt'') \<and>
   (row ''amt'' = Some ''1,234.56abc'' \<longrightarrow>
      fst (preprocessRow newDate row g) ''amt'' = Some (JNum 1234.56) \<and>
      fst (preprocessRow newDate row g) ''amount'' = Some (JNum 1234.56)) \<and>
   (row ''amt'' = Some ''garbage'' \<longrightarrow>
      fst (preprocessRow newDate row g) ''amt'' = Some (JNum 0) \<and>
      fst (preprocessRow newDate row g) ''amount'' = Some (JNum 0)) \<and>
   (row ''amt'' = None \<or> row ''amt'' = Some [] \<longrightarrow>
      fst (preprocessRow newDate row g) ''amt'' = map_option JStr (row ''amt'') \<and>
      fst (preprocessRow newDate row g) ''amount'' = map_option JStr (row ''amount''))"
proof (intro conjI allI impI)
  fix a assume "row ''amt'' = Some a \<and> a \<noteq> []"
  then show "fst (preprocessRow newDate row g) ''amt'' =
        Some (JNum (case parseFloat (filter (\<lambda>c. isDigit c \<or> c = CHR ''.'') a) of
                      None \<Rightarrow> 0 | Some x \<Rightarrow> x))"
    and "fst (preprocessRow newDate row g) ''amount'' = fst (preprocessRow newDate row g) ''amt''"
    by (simp_all add: preprocessRow_amt_present amountValue_def stripAmount_def)
next
  assume "row ''amt'' = Some ''1,234.56abc''"
  then show "fst (preprocessRow newDate row g) ''amt'' = Some (JNum 1234.56)"
    and "fst (preprocessRow newDate row g) ''amount'' = Some (JNum 1234.56)"
    using amountValue_examples(1) by (simp_all add: preprocessRow_amt_present)
next
  assume "row ''amt'' = Some ''garbage''"
  then show "fst (preprocessRow newDate row g) ''amt'' = Some (JNum 0)"
    and "fst (preprocessRow newDate row g) ''amount'' = Some (JNum 0)"
    using amountValue_examples(2) by (simp_all add: preprocessRow_amt_present)
next
  assume "row ''amt'' = None \<or> row ''amt'' = Some []"
  then have "truthyField row ''amt'' = None"
    by (auto simp: truthyField_def)
  then show "fst (preprocessRow newDate row g) ''amt'' = map_option JStr (row ''amt'')"
    and "fst (preprocessRow newDate row g) ''amount'' = map_option JStr (row ''amount'')"
    by (simp_all add: preprocessRow_amt_absent)
qed

theorem amount_normalization_witness:
  "fst (preprocessRow noDates [''amt'' \<mapsto> ''1,234.56abc''] zeroDraws) ''amt'' = Some (JNum 1234.56) \<and>
   fst (preprocessRow noDates [''amt'' \<mapsto> ''1,234.56abc''] zeroDraws) ''amount'' = Some (JNum 1234.56) \<and>
   fst (preprocessRow noDates [''amt'' \<mapsto> ''garbage''] zeroDraws) ''amt'' = Some (JNum 0) \<and>
   fst (preprocessRow noDates [''amt'' \<mapsto> ''garbage''] zeroDraws) ''amount'' = Some (JNum 0) \<and>
   fst (preprocessRow noDates [''amt'' \<mapsto> ''$12.50''] zeroDraws) ''amt'' = Some (JNum 12.5) \<and>
   fst (preprocessRow noDates [''amount'' \<mapsto> ''7''] zeroDraws) ''amt'' = None \<and>
   fst (preprocessRow noDates [''amount'' \<mapsto> ''7''] zeroDraws) ''amount'' = Some (JStr ''7'')"
proof -
  have v: "(case parseFloat (filter (\<lambda>c. isDigit c \<or> c = CHR ''.'') ''$12.50'') of
              None \<Rightarrow> 0 | Some x \<Rightarrow> x) = 12.5"
    by (simp add: parseFloat_def isDigit_def digitsVal_def digitVal_def)
  have "fst (preprocessRow noDates [''amt'' \<mapsto> ''1,234.56abc''] zeroDraws) ''amt'' = Some (JNum 1234.56) \<and>
        fst (preprocessRow noDates [''amt'' \<mapsto> ''1,234.56abc''] zeroDraws) ''amount'' = Some (JNum 1234.56)"
    by (rule amount_normalization [THEN conjunct2, THEN conjunct1, THEN mp]) simp
  moreover
  have "fst (preprocessRow noDates [''amt'' \<mapsto> ''garbage''] zeroDraws) ''amt'' = Some (JNum 0) \<and>
        fst (preprocessRow noDates [''amt'' \<mapsto> ''garbage''] zeroDraws) ''amount'' = Some (JNum 0)"
    by (rule amount_normalization [THEN conjunct2, THEN conjunct2, THEN conjunct1, THEN mp]) simp
  moreover
  have "[''amt'' \<mapsto> ''$12.50''] ''amt'' = Some ''$12.50'' \<and> ''$12.50'' \<noteq> []"
    by simp
  from amount_normalization [of "[''amt'' \<mapsto> ''$12.50'']" noDates zeroDraws,
      THEN conjunct1, THEN spec, THEN mp, OF this]
  have "fst (preprocessRow noDates [''amt'' \<mapsto> ''$12.50''] zeroDraws) ''amt'' = Some (JNum 12.5)"
    by (simp only: v)
  moreover
  have "[''amount'' \<mapsto> ''7''] ''amt'' = None \<or> [''amount'' \<mapsto> ''7''] ''amt'' = Some []"
    by simp
  from amount_normalization [of "[''amount'' \<mapsto> ''7'']" noDates zeroDraws,
      THEN conjunct2, THEN conjunct2, THEN conjunct2, THEN mp, OF this]
  have "fst (preprocessRow noDates [''amount'' \<mapsto> ''7''] zeroDraws) ''amt'' = None \<and>
        fst (preprocessRow noDates [''amount'' \<mapsto> ''7''] zeroDraws) ''amount'' = Some (JStr ''7'')"
    by simp
  ultimately show ?thesis by blast
qed

text \<open>
  A row whose \<^verbatim>\<open>amt\<close> cell is empty: the rule of the claim gives 0 for both fields,
  the normalized row has the empty text under \<^verbatim>\<open>amt\<close> and no \<^verbatim>\<open>amount\<close>.
\<close>

theorem blank_amount_counterexample:
  "(case parseFloat (filter (\<lambda>c. isDigit c \<or> c = CHR ''.'') []) of None \<Rightarrow> 0 | Some x \<Rightarrow> x) = (0 :: real) \<and>
   fst (preprocessRow noDates [''amt'' \<mapsto> []] zeroDraws) ''amt'' = Some (JStr []) \<and>
   fst (preprocessRow noDates [''amt'' \<mapsto> []] zeroDraws) ''amount'' = None"
  by (simp add: preprocessRow_amt_absent truthyField_def parseFloat_def digitsVal_def)

text \<open>
  Claim C6, as amended. The claim says that every normalized row holds \<^verbatim>\<open>amt\<close> and
  \<^verbatim>\<open>amount\<close> as non-negative numbers. Line 165 guards the whole block with
  \<^verbatim>\<open>if (row.amt)\<close>: a raw row with a non-empty \<^verbatim>\<open>amt\<close> gets both fields, holding
  the same non-negative number, which is 0 when the stripped text fails to parse and
  the parsed number otherwise; a raw row whose \<^verbatim>\<open>amt\<close> is absent or empty keeps
  whatever it had under these two names, and nothing when it had nothing.
\<close>

theorem amount_fields_when_present:
  "(\<forall>a. row ''amt'' = Some a \<and> a \<noteq> [] \<longrightarrow>
      (\<exists>x. 0 \<le> x \<and> fst (preprocessRow newDate row g) ''amt'' = Some (JNum x) \<and>
           fst (preprocessRow newDate row g) ''amount'' = Some (JNum x) \<and>
           (parseFloat (stripAmount a) = None \<longrightarrow> x = 0) \<and>
           (\<forall>y. parseFloat (stripAmount a) = Some y \<longrightarrow> x = y))) \<and>
   (truthyField row ''amt'' = None \<longrightarrow>
      fst (preprocessRow newDate row g) ''amt'' = map_option JStr (row ''amt'') \<and>
      fst (preprocessRow newDate row g) ''amount'' = map_option JStr (row ''amount''))"
proof (intro conjI allI impI)
  fix a assume "row ''amt'' = Some a \<and> a \<noteq> []"
  then have "fst (preprocessRow newDate row g) ''amt'' = Some (JNum (amountValue a))"
    and "fst (preprocessRow newDate row g) ''amount'' = Some (JNum (amountValue a))"
    by (simp_all add: preprocessRow_amt_present)
  moreover have "parseFloat (stripAmount a) = None \<longrightarrow> amountValue a = 0"
    by (simp add: amountValue_def)
  moreover have "\<forall>y. parseFloat (stripAmount a) = Some y \<longrightarrow> amountValue a = y"
    by (simp add: amountValue_def)
  moreover note amountValue_nonneg [of a]
  ultimately
  show "\<exists>x. 0 \<le> x \<and> fst (preprocessRow newDate row g) ''amt'' = Some (JNum x) \<and>
            fst (preprocessRow newDate row g) ''amount'' = Some (JNum x) \<and>
            (parseFloat (stripAmount a) = None \<longrightarrow> x = 0) \<and>
            (\<forall>y. parseFloat (stripAmount a) = Some y \<longrightarrow> x = y)"
    by (intro exI [of _ "amountValue a"] conjI)
next
  assume "truthyField row ''amt'' = None"
  then show "fst (preprocessRow newDate row g) ''amt'' = map_option JStr (row ''amt'')"
    and "fst (preprocessRow newDate row g) ''amount'' = map_option JStr (row ''amount'')"
    by (simp_all add: preprocessRow_amt_absent)
qed

theorem amount_fields_when_present_witness:
  "fst (preprocessRow noDates [''amt'' \<mapsto> ''$12.50''] zeroDraws) ''amt'' = Some (JNum 12.5) \<and>
   fst (preprocessRow noDates [''amt'' \<mapsto> ''$12.50''] zeroDraws) ''amount'' = Some (JNum 12.5) \<and>
   fst (preprocessRow noDates [''amt'' \<mapsto> ''garbage''] zeroDraws) ''amt'' = Some (JNum 0) \<and>
   fst (preprocessRow noDates [''amt'' \<mapsto> ''garbage''] zeroDraws) ''amount'' = Some (JNum 0) \<and>
   fst (preprocessRow noDates [''amount'' \<mapsto> ''7''] zeroDraws) ''amount'' = Some (JStr ''7'')"
proof -
  have "[''amt'' \<mapsto> ''$12.50''] ''amt'' = Some ''$12.50'' \<and> ''$12.50'' \<noteq> []"
    by simp
  from amount_fields_when_present [of "[''amt'' \<mapsto> ''$12.50'']" noDates zeroDraws,
      THEN conjunct1, THEN spec, THEN mp, OF this]
  obtain x where x:
    "0 \<le> x \<and>
     fst (preprocessRow noDates [''amt'' \<mapsto> ''$12.50''] zeroDraws) ''amt'' = Some (JNum x) \<and>
     fst (preprocessRow noDates [''amt'' \<mapsto> ''$12.50''] zeroDraws) ''amount'' = Some (JNum x) \<and>
     (parseFloat (stripAmount ''$12.50'') = None \<longrightarrow> x = 0) \<and>
     (\<forall>y. parseFloat (stripAmount ''$12.50'') = Some y \<longrightarrow> x = y)" ..
  from x [THEN conjunct2, THEN conjunct2, THEN conjunct2, THEN conjunct2, THEN spec, THEN mp,
      OF parseFloat_examples(3)]
  have "x = 12.5" .
  with x [THEN conjunct2, THEN conjunct1] x [THEN conjunct2, THEN conjunct2, THEN conjunct1]
  have a: "fst (preprocessRow noDates [''amt'' \<mapsto> ''$12.50''] zeroDraws) ''amt'' = Some (JNum 12.5) \<and>
        fst (preprocessRow noDates [''amt'' \<mapsto> ''$12.50''] zeroDraws) ''amount'' = Some (JNum 12.5)"
    by (simp only: simp_thms)
  have "[''amt'' \<mapsto> ''garbage''] ''amt'' = Some ''garbage'' \<and> ''garbage'' \<noteq> []"
    by simp
  from amount_fields_when_present [of "[''amt'' \<mapsto> ''garbage'']" noDates zeroDraws,
      THEN conjunct1, THEN spec, THEN mp, OF this]
  obtain z where z:
    "0 \<le> z \<and>
     fst (preprocessRow noDates [''amt'' \<mapsto> ''garbage''] zeroDraws) ''amt'' = Some (JNum z) \<and>
     fst (preprocessRow noDates [''amt'' \<mapsto> ''garbage''] zeroDraws) ''amount'' = Some (JNum z) \<and>
     (parseFloat (stripAmount ''garbage'') = None \<longrightarrow> z = 0) \<and>
     (\<forall>y. parseFloat (stripAmount ''garbage'') = Some y \<longrightarrow> z = y)" ..
  from z [THEN conjunct2, THEN conjunct2, THEN conjunct2, THEN conjunct1, THEN mp,
      OF parseFloat_examples(1)]
  have "z = 0" .
  with z [THEN conjunct2, THEN conjunct1] z [THEN conjunct2, THEN conjunct2, THEN conjunct1]
  have b: "fst (preprocessRow noDates [''amt'' \<mapsto> ''garbage''] zeroDraws) ''amt'' = Some (JNum 0) \<and>
        fst (preprocessRow noDates [''amt'' \<mapsto> ''garbage''] zeroDraws) ''amount'' = Some (JNum 0)"
    by (simp only: simp_thms)
  have "truthyField [''amount'' \<mapsto> ''7''] ''amt'' = None"
    by (simp add: truthyField_def)
  from amount_fields_when_present [of "[''amount'' \<mapsto> ''7'']" noDates zeroDraws,
      THEN conjunct2, THEN mp, OF this]
  have c: "fst (preprocessRow noDates [''amount'' \<mapsto> ''7''] zeroDraws) ''amount'' = Some (JStr ''7'')"
    by simp
  from a b c show ?thesis by blast
qed

text \<open>The empty raw row: the normalized row has neither field.\<close>

theorem amount_fields_counterexample:
  "fst (preprocessRow noDates Map.empty zeroDraws) ''amt'' = None \<and>
   fst (preprocessRow noDates Map.empty zeroDraws) ''amount'' = None"
  by (simp add: preprocessRow_amt_absent)

text \<open>
  Claim C8. For each of the thirteen category keys, the flag of the normalized row is
  1 when its number is the one the keyword rule of the specification gives for the
  \<^verbatim>\<open>category\<close> field, and 0 otherwise; the rule gives a number from 1 to 12, and 1
  for an absent field or no match. \<^verbatim>\<open>Fast Food Dining\<close> sets category 6 alone.
\<close>

theorem category_normalization:
  "(\<forall>i \<in> {1 .. 13}. fst (preprocessRow newDate row g) (categoryKey i) =
        Some (JNum (if i = specCategory (row ''category'') then 1 else 0))) \<and>
   specCategory (row ''category'') \<in> {1 .. 12} \<and>
   (row ''category'' = Some ''Fast Food Dining'' \<longrightarrow>
      fst (preprocessRow newDate row g) ''category_6'' = Some (JNum 1) \<and>
      flagsOn (fst (preprocessRow newDate row g)) categoryKeys = [''category_6''] \<and>
      length (flagsOff (fst (preprocessRow newDate row g)) categoryKeys) = 12)"
proof (intro conjI ballI impI)
  fix i :: nat assume "i \<in> {1 .. 13}"
  then have "i \<in> {1 ..< 14}" by auto
  then show "fst (preprocessRow newDate row g) (categoryKey i) =
        Some (JNum (if i = specCategory (row ''category'') then 1 else 0))"
    by (rule preprocessRow_category_flag)
next
  show "specCategory (row ''category'') \<in> {1 .. 12}"
    using specCategory_range [of "row ''category''"] by auto
next
  assume c: "row ''category'' = Some ''Fast Food Dining''"
  have six: "specCategory (Some ''Fast Food Dining'') = 6"
    by (simp add: specCategory_def keywordGroups_def toLowerCase_def toLowerCaseChar_def
          upperLetters_def lowerLetters_def)
  show "fst (preprocessRow newDate row g) ''category_6'' = Some (JNum 1)"
    using preprocessRow_category_flag [of 6 newDate row g] c six
    by (simp add: categoryKey_numerals)
  show "flagsOn (fst (preprocessRow newDate row g)) categoryKeys = [''category_6'']"
    using category_flags_spec(1) [of newDate row g] c six by (simp add: categoryKey_numerals)
  show "length (flagsOff (fst (preprocessRow newDate row g)) categoryKeys) = 12"
    using category_flags_spec(2) [of newDate row g] by (simp add: oneHot_def categoryKeys_list)
qed

theorem category_normalization_witness:
  "fst (preprocessRow noDates [''category'' \<mapsto> ''Fast Food Dining''] zeroDraws) ''category_6'' = Some (JNum 1) \<and>
   fst (preprocessRow noDates [''category'' \<mapsto> ''Fast Food Dining''] zeroDraws) ''category_1'' = Some (JNum 0) \<and>
   flagsOn (fst (preprocessRow noDates [''category'' \<mapsto> ''Fast Food Dining''] zeroDraws)) categoryKeys = [''category_6'']"
proof -
  let ?row = "[''category'' \<mapsto> ''Fast Food Dining'']"
  note t = category_normalization [of noDates ?row zeroDraws]
  have six: "specCategory (Some ''Fast Food Dining'') = 6"
    by (simp add: specCategory_def keywordGroups_def toLowerCase_def toLowerCaseChar_def
          upperLetters_def lowerLetters_def)
  from t have a: "\<forall>i \<in> {1 .. 13}. fst (preprocessRow noDates ?row zeroDraws) (categoryKey i) =
        Some (JNum (if i = specCategory (?row ''category'') then 1 else 0))"
    by (rule conjunct1)
  from a have "fst (preprocessRow noDates ?row zeroDraws) (categoryKey 1) =
        Some (JNum (if 1 = specCategory (?row ''category'') then 1 else 0))"
    by (rule bspec) simp
  then have one: "fst (preprocessRow noDates ?row zeroDraws) ''category_1'' = Some (JNum 0)"
    by (simp add: six categoryKey_numerals)
  from t one show ?thesis by simp
qed

lemma toUpperCase_zz: "toUpperCase ''zz'' = ''ZZ''"
  by (simp add: toUpperCase_def toUpperCaseChar_def lowerLetters_def upperLetters_def)

lemma ZZ_not_state: "''ZZ'' \<notin> set states"
  by (simp add: states_def)

lemma CA_state: "''CA'' \<in> set states"
  by (simp add: states_def)

lemma state_flags_unrecognized:
  assumes "row ''state'' = Some s" and "s \<noteq> []" and "toUpperCase s \<notin> set states"
    and "key \<in> set stateKeys"
  shows "fst (preprocessRow newDate row g) key = Some (JNum 0)"
proof -
  from assms(4) obtain c where c: "c \<in> set states" and key: "key = stateKey c"
    by (auto simp: stateKeys_def)
  from c assms(3) have "c \<noteq> toUpperCase s" by auto
  with assms(1,2) show ?thesis
    by (simp add: key preprocessRow_state_flag [OF c])
qed

lemma state_flags_chosen:
  assumes "c0 \<in> set states"
    and "case truthyField row ''state'' of None \<Rightarrow> c0 = ''CA'' | Some s \<Rightarrow> c0 = toUpperCase s"
    and "key \<in> set stateKeys"
  shows "fst (preprocessRow newDate row g) key = Some (JNum (if key = stateKey c0 then 1 else 0))"
proof -
  from assms(3) obtain c where c: "c \<in> set states" and key: "key = stateKey c"
    by (auto simp: stateKeys_def)
  from assms(2) show ?thesis
    by (auto simp: key preprocessRow_state_flag [OF c] split: option.splits)
qed

text \<open>
  Claim C3, as amended. The claim says that a \<^verbatim>\<open>state\<close> that is present but not one
  of the fifty codes sets \<^verbatim>\<open>state_CA\<close>. Lines 242-246 set a flag only for a code of
  the list and have no other branch: for a non-empty \<^verbatim>\<open>state\<close> outside the list every
  state flag stays 0, \<^verbatim>\<open>state_CA\<close> included. The default of line 254 applies when
  the field is absent or empty.
\<close>

theorem unrecognized_state_sets_no_flag:
  "(\<forall>s. row ''state'' = Some s \<and> s \<noteq> [] \<and> toUpperCase s \<notin> set states \<longrightarrow>
        (\<forall>c \<in> set states. fst (preprocessRow newDate row g) (stateKey c) = Some (JNum 0))) \<and>
   (truthyField row ''state'' = None \<longrightarrow>
        fst (preprocessRow newDate row g) ''state_CA'' = Some (JNum 1))"
proof (intro conjI allI impI ballI)
  fix s c
  assume "row ''state'' = Some s \<and> s \<noteq> [] \<and> toUpperCase s \<notin> set states" and "c \<in> set states"
  then show "fst (preprocessRow newDate row g) (stateKey c) = Some (JNum 0)"
    by (intro state_flags_unrecognized [of row s]) (simp_all add: stateKeys_def)
next
  assume "truthyField row ''state'' = None"
  then show "fst (preprocessRow newDate row g) ''state_CA'' = Some (JNum 1)"
    using preprocessRow_state_flag [OF CA_state, of newDate row g] by (simp add: stateKey_CA)
qed

theorem unrecognized_state_sets_no_flag_witness:
  "fst (preprocessRow noDates [''state'' \<mapsto> ''zz''] zeroDraws) ''state_CA'' = Some (JNum 0) \<and>
   fst (preprocessRow noDates [''state'' \<mapsto> ''zz''] zeroDraws) ''state_WY'' = Some (JNum 0) \<and>
   fst (preprocessRow noDates [''state'' \<mapsto> ''''] zeroDraws) ''state_CA'' = Some (JNum 1)"
proof -
  have "\<forall>c \<in> set states. fst (preprocessRow noDates [''state'' \<mapsto> ''zz''] zeroDraws) (stateKey c) = Some (JNum 0)"
    using unrecognized_state_sets_no_flag [of "[''state'' \<mapsto> ''zz'']" noDates zeroDraws]
    by (simp add: toUpperCase_zz ZZ_not_state)
  then have "fst (preprocessRow noDates [''state'' \<mapsto> ''zz''] zeroDraws) (stateKey ''CA'') = Some (JNum 0)"
    and "fst (preprocessRow noDates [''state'' \<mapsto> ''zz''] zeroDraws) (stateKey ''WY'') = Some (JNum 0)"
    by (simp_all add: states_def)
  moreover have "fst (preprocessRow noDates [''state'' \<mapsto> ''''] zeroDraws) ''state_CA'' = Some (JNum 1)"
    using unrecognized_state_sets_no_flag [of "[''state'' \<mapsto> '''']" noDates zeroDraws]
    by simp
  ultimately show ?thesis by (simp add: stateKey_def)
qed

text \<open>The raw row whose only field is the state \<^verbatim>\<open>zz\<close>.\<close>

theorem invalid_state_counterexample:
  "fst (preprocessRow noDates [''state'' \<mapsto> ''zz''] zeroDraws) ''state_CA'' = Some (JNum 0) \<and>
   fst (preprocessRow noDates [''state'' \<mapsto> ''zz''] zeroDraws) ''state_CA'' \<noteq> Some (JNum 1)"
proof -
  have "fst (preprocessRow noDates [''state'' \<mapsto> ''zz''] zeroDraws) (stateKey ''CA'') = Some (JNum 0)"
    by (rule state_flags_unrecognized [of _ "''zz''"])
      (simp_all add: toUpperCase_zz ZZ_not_state stateKeys_def CA_state)
  then show ?thesis by (simp add: stateKey_CA)
qed

text \<open>
  Claim C1, as amended. The normalizer is a total function on rows of strings, and
  its category flags are always one-hot. Its state flags are one-hot when the
  \<^verbatim>\<open>state\<close> field is absent or empty (\<^verbatim>\<open>state_CA\<close>) and when it is, in upper case,
  one of the fifty codes (the flag of that code); for any other \<^verbatim>\<open>state\<close> all fifty
  flags are 0.
\<close>

theorem one_hot_flags:
  "oneHot (fst (preprocessRow newDate row g)) categoryKeys \<and>
   (case truthyField row ''state'' of
      None \<Rightarrow>
        flagsOn (fst (preprocessRow newDate row g)) stateKeys = [''state_CA''] \<and>
        oneHot (fst (preprocessRow newDate row g)) stateKeys
    | Some s \<Rightarrow>
        if toUpperCase s \<in> set states
        then flagsOn (fst (preprocessRow newDate row g)) stateKeys = [stateKey (toUpperCase s)] \<and>
             oneHot (fst (preprocessRow newDate row g)) stateKeys
        else flagsOn (fst (preprocessRow newDate row g)) stateKeys = [] \<and>
             flagsOff (fst (preprocessRow newDate row g)) stateKeys = stateKeys)"
proof (rule conjI)
  show "oneHot (fst (preprocessRow newDate row g)) categoryKeys"
    by (rule category_flags_spec)
next
  let ?r = "fst (preprocessRow newDate row g)"
  show "case truthyField row ''state'' of
      None \<Rightarrow> flagsOn ?r stateKeys = [''state_CA''] \<and> oneHot ?r stateKeys
    | Some s \<Rightarrow>
        if toUpperCase s \<in> set states
        then flagsOn ?r stateKeys = [stateKey (toUpperCase s)] \<and> oneHot ?r stateKeys
        else flagsOn ?r stateKeys = [] \<and> flagsOff ?r stateKeys = stateKeys"
  proof (cases "truthyField row ''state''")
    case None
    have k0: "stateKey ''CA'' \<in> set stateKeys"
      by (simp add: stateKeys_def CA_state)
    have ind: "?r key = Some (JNum (if key = stateKey ''CA'' then 1 else 0))"
      if "key \<in> set stateKeys" for key
      using that None by (intro state_flags_chosen [OF CA_state]) simp_all
    from None flagsOn_indicator(1) [OF distinct_stateKeys k0 ind]
      oneHot_indicator [OF distinct_stateKeys k0 ind]
    show ?thesis by (simp add: stateKey_CA)
  next
    case (Some s)
    show ?thesis
    proof (cases "toUpperCase s \<in> set states")
      case True
      then have k0: "stateKey (toUpperCase s) \<in> set stateKeys"
        by (simp add: stateKeys_def)
      have ind: "?r key = Some (JNum (if key = stateKey (toUpperCase s) then 1 else 0))"
        if "key \<in> set stateKeys" for key
        using that Some by (intro state_flags_chosen [OF True]) simp_all
      from Some True flagsOn_indicator(1) [OF distinct_stateKeys k0 ind]
        oneHot_indicator [OF distinct_stateKeys k0 ind]
      show ?thesis by simp
    next
      case False
      from Some have s: "row ''state'' = Some s" "s \<noteq> []"
        by (auto dest: truthyField_SomeD)
      have zero: "?r key = Some (JNum 0)" if "key \<in> set stateKeys" for key
        using that by (rule state_flags_unrecognized [where row = row, OF s False])
      from Some False flags_all_zero [of stateKeys ?r, OF zero]
      show ?thesis by simp
    qed
  qed
qed

theorem one_hot_flags_witness:
  "oneHot (fst (preprocessRow noDates [''state'' \<mapsto> ''ny''] zeroDraws)) categoryKeys \<and>
   flagsOn (fst (preprocessRow noDates [''state'' \<mapsto> ''ny''] zeroDraws)) stateKeys = [''state_NY''] \<and>
   oneHot (fst (preprocessRow noDates [''state'' \<mapsto> ''ny''] zeroDraws)) stateKeys \<and>
   flagsOn (fst (preprocessRow noDates Map.empty zeroDraws)) stateKeys = [''state_CA''] \<and>
   flagsOn (fst (preprocessRow noDates [''state'' \<mapsto> ''zz''] zeroDraws)) stateKeys = []"
proof -
  have ny: "toUpperCase ''ny'' = ''NY''"
    by (simp add: toUpperCase_def toUpperCaseChar_def lowerLetters_def upperLetters_def)
  have "''NY'' \<in> set states"
    by (simp add: states_def)
  then show ?thesis
    using one_hot_flags [of noDates "[''state'' \<mapsto> ''ny'']" zeroDraws]
      one_hot_flags [of noDates Map.empty zeroDraws]
      one_hot_flags [of noDates "[''state'' \<mapsto> ''zz'']" zeroDraws]
    by (simp add: ny toUpperCase_zz ZZ_not_state stateKey_def)
qed

text \<open>With the state \<^verbatim>\<open>zz\<close> the state flags are not one-hot.\<close>

theorem one_hot_flags_counterexample:
  "\<not> oneHot (fst (preprocessRow noDates [''state'' \<mapsto> ''zz''] zeroDraws)) stateKeys"
proof -
  have "flagsOn (fst (preprocessRow noDates [''state'' \<mapsto> ''zz''] zeroDraws)) stateKeys = []"
    by (rule flags_all_zero, rule state_flags_unrecognized [of _ "''zz''"])
      (simp_all add: toUpperCase_zz ZZ_not_state)
  then show ?thesis by (simp add: oneHot_def)
qed

lemma mapRandom_length: "length (fst (mapRandom f xs g)) = length xs"
  by (induction xs arbitrary: g) (simp_all add: Let_def case_prod_beta)

lemma mapRandom_append:
  "mapRandom f (xs @ ys) g =
     (let (ps, g') = mapRandom f xs g; (qs, g'') = mapRandom f ys g' in (ps @ qs, g''))"
  by (induction xs arbitrary: g) (simp_all add: Let_def case_prod_beta)

lemma mapRandom_elements:
  "y \<in> set (fst (mapRandom f xs g)) \<Longrightarrow> \<exists>x \<in> set xs. \<exists>g'. y = fst (f x g')"
proof (induction xs arbitrary: g)
  case Nil
  then show ?case by simp
next
  case (Cons x rest)
  obtain p g1 where a: "f x g = (p, g1)"
    by (cases "f x g")
  obtain ps g2 where b: "mapRandom f rest g1 = (ps, g2)"
    by (cases "mapRandom f rest g1")
  from Cons.prems a b have "y = p \<or> y \<in> set ps"
    by simp
  then show ?case
  proof
    assume "y = p"
    with a have "y = fst (f x g)" by simp
    then show ?thesis by auto
  next
    assume "y \<in> set ps"
    with b have "y \<in> set (fst (mapRandom f rest g1))" by simp
    from Cons.IH [OF this] show ?thesis by auto
  qed
qed

lemma fold_processBatch:
  "fold (processBatch newDate data) [0 ..< n] ([], g) = mapRandom (preprocessRow newDate) (take (n * CHUNK_SIZE) data) g"
proof (induction n)
  case 0
  then show ?case by simp
next
  case (Suc n)
  have sl: "slice data (n * CHUNK_SIZE) (min (n * CHUNK_SIZE + CHUNK_SIZE) (length data))
              = take CHUNK_SIZE (drop (n * CHUNK_SIZE) data)"
    by (simp add: slice_def min_def)
  have tk: "take (Suc n * CHUNK_SIZE) data
              = take (n * CHUNK_SIZE) data @ take CHUNK_SIZE (drop (n * CHUNK_SIZE) data)"
    unfolding mult_Suc add.commute [of CHUNK_SIZE "n * CHUNK_SIZE"] by (rule take_add)
  obtain ps g1 where m1: "mapRandom (preprocessRow newDate) (take (n * CHUNK_SIZE) data) g = (ps, g1)"
    by (cases "mapRandom (preprocessRow newDate) (take (n * CHUNK_SIZE) data) g")
  obtain qs g2 where m2: "mapRandom (preprocessRow newDate) (take CHUNK_SIZE (drop (n * CHUNK_SIZE) data)) g1 = (qs, g2)"
    by (cases "mapRandom (preprocessRow newDate) (take CHUNK_SIZE (drop (n * CHUNK_SIZE) data)) g1")
  have "fold (processBatch newDate data) [0 ..< Suc n] ([], g) = processBatch newDate data n (ps, g1)"
    by (simp add: Suc.IH m1)
  also have "\<dots> = (ps @ qs, g2)"
    by (simp add: processBatch_def Let_def sl m2)
  also have "\<dots> = mapRandom (preprocessRow newDate) (take (Suc n * CHUNK_SIZE) data) g"
    by (simp only: tk) (simp add: mapRandom_append m1 m2)
  finally show ?case .
qed

lemma preprocessCSV_mapRows: "preprocessCSV newDate data g = mapRandom (preprocessRow newDate) data g"
proof (cases "data = []")
  case True
  then show ?thesis by (simp add: preprocessCSV_def)
next
  case False
  let ?n = "(length data + CHUNK_SIZE - 1) div CHUNK_SIZE"
  have pos: "0 < CHUNK_SIZE" by (simp add: CHUNK_SIZE_def)
  have ge: "length data \<le> ?n * CHUNK_SIZE"
    using pos by (simp add: CHUNK_SIZE_def) 
  from False fold_processBatch [of newDate data ?n g] ge show ?thesis
    by (simp add: preprocessCSV_def Let_def)
qed

lemma preprocessCSV_length: "length (fst (preprocessCSV newDate data g)) = length data"
  by (simp add: preprocessCSV_mapRows mapRandom_length)

text \<open>Every row that \<open>preprocessCSV\<close> returns is a normalized row of the data.\<close>

lemma preprocessCSV_rows:
  "r \<in> set (fst (preprocessCSV newDate data g)) \<Longrightarrow>
     \<exists>row \<in> set data. \<exists>g'. r = fst (preprocessRow newDate row g')"
  by (simp add: preprocessCSV_mapRows mapRandom_elements)


lemma preprocessCSV_category_one_hot:
  assumes "r \<in> set (fst (preprocessCSV newDate data g))"
  shows "oneHot r categoryKeys"
proof -
  from preprocessCSV_rows [OF assms] obtain row g' where "r = fst (preprocessRow newDate row g')"
    by blast
  then show ?thesis
    by (simp add: category_flags_spec)
qed

section \<open>The row cap of the parser\<close>

lemma feedChunks_bound:
  assumes "\<forall>rows. Chunk rows \<in> set events \<longrightarrow> length rows \<le> k"
    and "length results \<le> 100000"
    and "feedChunks events results = Returned out"
  shows "length out \<le> 100000 + k"
  using assms
proof (induction events results rule: feedChunks.induct)
  case (1 results)
  then show ?case by simp
next
  case (2 e rest results)
  then show ?case by simp
next
  case (3 rows rest results)
  then show ?case by simp
next
  case (4 rows rest results)
  have k: "length rows \<le> k" using "4.prems"(1) by simp
  show ?case
  proof (cases "length (results @ rows) > 100000")
    case True
    with "4.prems" k show ?thesis by (auto simp: Let_def)
  next
    case False
    with "4.prems" have "feedChunks rest (results @ rows) = Returned out"
      by (simp add: Let_def)
    with "4.IH" [OF refl] False "4.prems"(1) show ?thesis by simp
  qed
qed

text \<open>
  Claim C9. The claim is that at most 100,000 rows are kept. The test of line 298 comes
  after the whole chunk has been pushed and nothing is cut afterwards, so the rows of
  the chunk that crosses the limit are all kept: three chunks of 60,000 rows give
  120,000 rows (the third chunk is not read), and chunks of 50,000 and 50,001 rows give
  100,001. The parse ends without an error, as the claim says. What holds is
  \<open>feedChunks_bound\<close>: 100,000 plus the size of the largest chunk.
\<close>

theorem row_cap_not_enforced:
  "(\<exists>rows. fst (processCSV newDate [Chunk (replicate 60000 line), Chunk (replicate 60000 line),
                                      Chunk (replicate 60000 line)] g) = Returned rows \<and>
            length rows = 120000) \<and>
   (\<exists>rows. fst (processCSV newDate [Chunk (replicate 50000 line), Chunk (replicate 50001 line)] g) =
              Returned rows \<and>
            length rows = 100001)"
proof (rule conjI)
  have "feedChunks [Chunk (replicate 60000 line), Chunk (replicate 60000 line),
                    Chunk (replicate 60000 line)] [] = Returned (replicate 60000 line @ replicate 60000 line)"
    by (simp add: Let_def)
  then show "\<exists>rows. fst (processCSV newDate [Chunk (replicate 60000 line), Chunk (replicate 60000 line),
                                      Chunk (replicate 60000 line)] g) = Returned rows \<and>
            length rows = 120000"
    using preprocessCSV_length [of newDate "replicate 60000 line @ replicate 60000 line" g]
    by (simp add: processCSV_def case_prod_beta)
next
  have "feedChunks [Chunk (replicate 50000 line), Chunk (replicate 50001 line)] [] =
          Returned (replicate 50000 line @ replicate 50001 line)"
    by (simp add: Let_def)
  then show "\<exists>rows. fst (processCSV newDate [Chunk (replicate 50000 line), Chunk (replicate 50001 line)] g) =
              Returned rows \<and>
            length rows = 100001"
    using preprocessCSV_length [of newDate "replicate 50000 line @ replicate 50001 line" g]
    by (simp add: processCSV_def case_prod_beta)
qed

section \<open>The risk distribution\<close>

lemma countRisk_levels:
  "countRisk ''Low'' [(''Low'', Count l), (''Medium'', Count m), (''High'', Count h)] =
     [(''Low'', Count (l + 1)), (''Medium'', Count m), (''High'', Count h)]"
  "countRisk ''Medium'' [(''Low'', Count l), (''Medium'', Count m), (''High'', Count h)] =
     [(''Low'', Count l), (''Medium'', Count (m + 1)), (''High'', Count h)]"
  "countRisk ''High'' [(''Low'', Count l), (''Medium'', Count m), (''High'', Count h)] =
     [(''Low'', Count l), (''Medium'', Count m), (''High'', Count (h + 1))]"
  by (simp_all add: countRisk_def)

lemma fold_countRisk:
  assumes "\<forall>tx \<in> set transactions. risk_level tx \<in> {''Low'', ''Medium'', ''High''}"
  shows "fold (\<lambda>tx riskCounts. countRisk (risk_level tx) riskCounts) transactions
           [(''Low'', Count l), (''Medium'', Count m), (''High'', Count h)] =
         [(''Low'', Count (l + countLevel ''Low'' transactions)),
          (''Medium'', Count (m + countLevel ''Medium'' transactions)),
          (''High'', Count (h + countLevel ''High'' transactions))]"
  using assms
proof (induction transactions arbitrary: l m h)
  case Nil
  then show ?case by (simp add: countLevel_def)
next
  case (Cons tx rest)
  from Cons.prems have "risk_level tx = ''Low'' \<or> risk_level tx = ''Medium'' \<or> risk_level tx = ''High''"
    by simp
  moreover from Cons.prems have rest: "\<forall>tx \<in> set rest. risk_level tx \<in> {''Low'', ''Medium'', ''High''}"
    by simp
  ultimately show ?case
    using Cons.IH [OF rest] by (auto simp: countRisk_levels countLevel_def)
qed

lemma countLevel_total:
  assumes "\<forall>tx \<in> set transactions. risk_level tx \<in> {''Low'', ''Medium'', ''High''}"
  shows "countLevel ''Low'' transactions + countLevel ''Medium'' transactions +
         countLevel ''High'' transactions = length transactions"
  using assms by (induction transactions) (auto simp: countLevel_def)

text \<open>
  Claim C10. When every transaction has one of the levels Low, Medium and High, the
  result is exactly the three entries Low, Medium and High, in this order, each with
  the number of transactions of its level, and the three numbers add up to the length
  of the list.
\<close>

theorem risk_distribution_counts:
  assumes "\<forall>tx \<in> set transactions. risk_level tx \<in> {''Low'', ''Medium'', ''High''}"
  shows "calculateRiskDistribution transactions =
           [(''Low'', Count (countLevel ''Low'' transactions)),
            (''Medium'', Count (countLevel ''Medium'' transactions)),
            (''High'', Count (countLevel ''High'' transactions))] \<and>
         countLevel ''Low'' transactions + countLevel ''Medium'' transactions +
         countLevel ''High'' transactions = length transactions"
  using fold_countRisk [OF assms, of 0 0 0] countLevel_total [OF assms]
  by (simp add: calculateRiskDistribution_def)

theorem risk_distribution_counts_witness:
  "calculateRiskDistribution
     [\<lparr>risk_level = ''High'', fraud_probability = 0.9\<rparr>,
      \<lparr>risk_level = ''Low'', fraud_probability = 0.1\<rparr>,
      \<lparr>risk_level = ''High'', fraud_probability = 0.8\<rparr>] =
     [(''Low'', Count 1), (''Medium'', Count 0), (''High'', Count 2)]"
  using risk_distribution_counts
    [of "[\<lparr>risk_level = ''High'', fraud_probability = 0.9\<rparr>,
          \<lparr>risk_level = ''Low'', fraud_probability = 0.1\<rparr>,
          \<lparr>risk_level = ''High'', fraud_probability = 0.8\<rparr>]"]
  by (simp add: countLevel_def)

section \<open>The reconciler: API rows and the simulated classification\<close>

lemma andThen_simps [simp]:
  "andThen (Returned v, g) continue = continue v g"
  "andThen (Thrown e, g) continue = (Thrown e, g)"
  "andThen (Pending, g) continue = (Pending, g)"
  by (simp_all add: andThen_def)

lemma tryCatch_simps [simp]:
  "tryCatch (Returned v, g) handler = (Returned v, g)"
  "tryCatch (Thrown e, g) handler = handler e g"
  "tryCatch (Pending, g) handler = (Pending, g)"
  by (simp_all add: tryCatch_def)

lemma mapRandom_list_all2:
  assumes "\<And>x g. P (fst (f x g)) x"
  shows "list_all2 P (fst (mapRandom f xs g)) xs"
proof (induction xs arbitrary: g)
  case Nil
  show ?case by simp
next
  case (Cons x xs)
  obtain y g1 where a: "f x g = (y, g1)" by (cases "f x g")
  obtain ys g2 where b: "mapRandom f xs g1 = (ys, g2)" by (cases "mapRandom f xs g1")
  from assms [of x g] a have "P y x" by simp
  moreover from Cons [of g1] b have "list_all2 P ys xs" by simp
  ultimately show ?case by (simp add: a b)
qed

text \<open>An element of a bucket that is an object is enhanced; \<^verbatim>\<open>null\<close> throws.\<close>

lemma enhance_object:
  "\<exists>r g'. enhanceTransaction h m (Some tx) level d g = (Returned r, g') \<and>
          r ''fraud_probability'' = js_or (tx ''fraud_probability'') (Some (JNum d)) \<and>
          r ''risk_level'' = Some (JStr level)"
  by (simp add: enhanceTransaction_def Let_def case_prod_beta)

lemma enhance_null:
  "enhanceTransaction h m None level d g = (Thrown (TypeError h ''tx.id''), g)"
  by (simp add: enhanceTransaction_def)

lemma enhance_settles: "fst (enhanceTransaction h m item level d g) \<noteq> Pending"
  by (cases item) (simp_all add: enhanceTransaction_def Let_def case_prod_beta)

lemma mapThrowing_settles:
  assumes "\<And>x g. fst (f x g) \<noteq> Pending"
  shows "fst (mapThrowing f xs g) \<noteq> Pending"
proof (induction xs arbitrary: g)
  case Nil
  show ?case by simp
next
  case (Cons x xs)
  obtain y g1 where a: "f x g = (y, g1)" by (cases "f x g")
  from assms [of x g] a have y: "y \<noteq> Pending" by simp
  show ?case
  proof (cases y)
    case (Returned v)
    obtain ys g2 where b: "mapThrowing f xs g1 = (ys, g2)" by (cases "mapThrowing f xs g1")
    from Cons [of g1] b have "ys \<noteq> Pending" by simp
    with a b Returned show ?thesis by (cases ys) simp_all
  next
    case (Thrown e)
    with a show ?thesis by simp
  next
    case Pending
    with y show ?thesis by simp
  qed
qed

lemma mapThrowing_null:
  "mapThrowing (\<lambda>tx. enhanceTransaction h m tx level d) (None # txs) g = (Thrown (TypeError h ''tx.id''), g)"
  by (simp add: enhance_null)

lemma mapBucket_settles:
  "fst (mapBucket h expression (\<lambda>tx. enhanceTransaction h m tx level d) transactions g) \<noteq> Pending"
  by (cases transactions) (simp_all add: mapBucket_def mapThrowing_settles enhance_settles)

lemma mapBucket_empty:
  "emptyBucket transactions \<Longrightarrow> mapBucket h expression callback transactions g = (Returned [], g)"
  by (auto simp: emptyBucket_def mapBucket_def)

lemma reconcile_settles: "fst (reconcile h preprocessedData prediction g) \<noteq> Pending"
proof (cases prediction)
  case JsonNull
  then show ?thesis by (simp add: reconcile_def)
next
  case (JsonObject p)
  let ?m = "indexTransactions preprocessedData"
  obtain a g1 where a: "mapBucket h ''prediction.highRiskTransactions.map''
      (\<lambda>tx. enhanceTransaction h ?m tx ''High'' 0.8) (highRiskTransactions p) g = (a, g1)"
    by (cases "mapBucket h ''prediction.highRiskTransactions.map''
      (\<lambda>tx. enhanceTransaction h ?m tx ''High'' 0.8) (highRiskTransactions p) g")
  obtain b g2 where b: "mapBucket h ''prediction.mediumRiskTransactions.map''
      (\<lambda>tx. enhanceTransaction h ?m tx ''Medium'' 0.5) (mediumRiskTransactions p) g1 = (b, g2)"
    by (cases "mapBucket h ''prediction.mediumRiskTransactions.map''
      (\<lambda>tx. enhanceTransaction h ?m tx ''Medium'' 0.5) (mediumRiskTransactions p) g1")
  obtain c g3 where c: "mapBucket h ''prediction.lowRiskTransactions.map''
      (\<lambda>tx. enhanceTransaction h ?m tx ''Low'' 0.2) (lowRiskTransactions p) g2 = (c, g3)"
    by (cases "mapBucket h ''prediction.lowRiskTransactions.map''
      (\<lambda>tx. enhanceTransaction h ?m tx ''Low'' 0.2) (lowRiskTransactions p) g2")
  from mapBucket_settles [of h "''prediction.highRiskTransactions.map''" ?m "''High''" "0.8"
      "highRiskTransactions p" g] a
  have a': "a \<noteq> Pending" by simp
  from mapBucket_settles [of h "''prediction.mediumRiskTransactions.map''" ?m "''Medium''" "0.5"
      "mediumRiskTransactions p" g1] b
  have b': "b \<noteq> Pending" by simp
  from mapBucket_settles [of h "''prediction.lowRiskTransactions.map''" ?m "''Low''" "0.2"
      "lowRiskTransactions p" g2] c
  have c': "c \<noteq> Pending" by simp
  show ?thesis
  proof (cases a)
    case ra: (Returned highRiskTxs)
    show ?thesis
    proof (cases b)
      case rb: (Returned medRiskTxs)
      show ?thesis
      proof (cases c)
        case rc: (Returned lowRiskTxs)
        with JsonObject a b c ra rb show ?thesis
          by (simp add: reconcile_def Let_def case_prod_beta)
      next
        case (Thrown e)
        with JsonObject a b c ra rb show ?thesis
          by (simp add: reconcile_def Let_def)
      next
        case Pending
        with c' show ?thesis by simp
      qed
    next
      case (Thrown e)
      with JsonObject a b ra show ?thesis
        by (simp add: reconcile_def Let_def)
    next
      case Pending
      with b' show ?thesis by simp
    qed
  next
    case (Thrown e)
    with JsonObject a show ?thesis
      by (simp add: reconcile_def Let_def)
  next
    case Pending
    with a' show ?thesis by simp
  qed
qed

text \<open>Responses that are not of the declared shape: the reconciler throws.\<close>

lemma reconcile_ill_shaped:
  "reconcile h preprocessedData JsonNull g = (Thrown (TypeError h ''prediction.highRiskTransactions''), g)"
  "highRiskTransactions p = NotAnArray \<Longrightarrow>
     reconcile h preprocessedData (JsonObject p) g =
       (Thrown (TypeError h ''prediction.highRiskTransactions.map''), g)"
  "highRiskTransactions p = Items (None # txs) \<Longrightarrow>
     reconcile h preprocessedData (JsonObject p) g = (Thrown (TypeError h ''tx.id''), g)"
  "highRiskTransactions p = NoBucket \<Longrightarrow> mediumRiskTransactions p = NotAnArray \<Longrightarrow>
     reconcile h preprocessedData (JsonObject p) g =
       (Thrown (TypeError h ''prediction.mediumRiskTransactions.map''), g)"
  "highRiskTransactions p = NoBucket \<Longrightarrow> mediumRiskTransactions p = NoBucket \<Longrightarrow>
   lowRiskTransactions p = NotAnArray \<Longrightarrow>
     reconcile h preprocessedData (JsonObject p) g =
       (Thrown (TypeError h ''prediction.lowRiskTransactions.map''), g)"
  by (simp_all add: reconcile_def Let_def mapBucket_def enhance_null)

text \<open>
  Claim C5. The level is fixed per bucket, and the probability is the API value when
  that value is truthy and the bucket default otherwise (\<open>enhance_object\<close>). The claim
  is that a probability the API provides is kept. Line 485 reads
  \<^verbatim>\<open>tx.fraud_probability || defaultProb\<close>, so a provided probability of 0 is
  replaced: 0.8 in the High bucket, 0.2 in the Low bucket.
\<close>

theorem zero_probability_replaced:
  "\<exists>result.
     fst (reconcile h preprocessedData
        (JsonObject
           \<lparr>highRiskTransactions = Items [Some [''id'' \<mapsto> JStr ''t1'', ''fraud_probability'' \<mapsto> JNum 0]],
            mediumRiskTransactions = NoBucket,
            lowRiskTransactions = Items [Some [''id'' \<mapsto> JStr ''t2'', ''fraud_probability'' \<mapsto> JNum 0]],
            riskDistribution = None\<rparr>) g) = Returned result \<and>
     map (\<lambda>t. t ''fraud_probability'') (processedTransactions result) =
       [Some (JNum 0.8), Some (JNum 0.2)]"
  by (simp add: reconcile_def assemble_def mapBucket_def enhanceTransaction_def truthyValue_def
        Let_def case_prod_beta js_or_def)

text \<open>The simulated classification: the loop of lines 515-539 is the rule of the specification.\<close>

lemma classify_simulated:
  "fold (classifyTransaction d t) rows (hs, ms, ls, g) =
     (hs @ ofLevel ''High'' (simulated (High d / t, Medium d / t) g rows),
      ms @ ofLevel ''Medium'' (simulated (High d / t, Medium d / t) g rows),
      ls @ ofLevel ''Low'' (simulated (High d / t, Medium d / t) g rows),
      \<lambda>n. g (n + 2 * length rows))"
proof (induction rows arbitrary: hs ms ls g)
  case Nil
  show ?case by (simp add: ofLevel_def)
next
  case (Cons tx rows)
  let ?g2 = "\<lambda>n. g (n + 2)"
  have g2: "(\<lambda>n. g (Suc (Suc n))) = ?g2"
    by simp
  have rest: "(\<lambda>n. ?g2 (n + 2 * length rows)) = (\<lambda>n. g (n + 2 * length (tx # rows)))"
    by (simp add: add.commute add.left_commute)
  consider (high) "g 0 < High d / t"
    | (medium) "\<not> g 0 < High d / t" "g 0 < High d / t + Medium d / t"
    | (low) "\<not> g 0 < High d / t" "\<not> g 0 < High d / t + Medium d / t"
    by blast
  then show ?case
  proof cases
    case high
    have step: "classifyTransaction d t tx (hs, ms, ls, g) =
        (hs @ [tx(''fraud_probability'' \<mapsto> JNum (0.7 + g 1 * 0.3), ''risk_level'' \<mapsto> JStr ''High'')],
         ms, ls, ?g2)"
      using high by (simp add: classifyTransaction_def mathRandom_def Let_def)
    have sim: "simulated (High d / t, Medium d / t) g (tx # rows) =
        (''High'', tx(''fraud_probability'' \<mapsto> JNum (0.7 + g 1 * 0.3), ''risk_level'' \<mapsto> JStr ''High'')) #
        simulated (High d / t, Medium d / t) ?g2 rows"
      using high by (simp add: drawnLevel_def drawnProbability_def)
    show ?thesis
      unfolding fold_Cons comp_apply step Cons.IH sim rest
      by (simp add: ofLevel_def)
  next
    case medium
    have step: "classifyTransaction d t tx (hs, ms, ls, g) =
        (hs, ms @ [tx(''fraud_probability'' \<mapsto> JNum (0.4 + g 1 * 0.3), ''risk_level'' \<mapsto> JStr ''Medium'')],
         ls, ?g2)"
      using medium by (simp add: classifyTransaction_def mathRandom_def Let_def)
    have sim: "simulated (High d / t, Medium d / t) g (tx # rows) =
        (''Medium'', tx(''fraud_probability'' \<mapsto> JNum (0.4 + g 1 * 0.3), ''risk_level'' \<mapsto> JStr ''Medium'')) #
        simulated (High d / t, Medium d / t) ?g2 rows"
      using medium by (simp add: drawnLevel_def drawnProbability_def)
    show ?thesis
      unfolding fold_Cons comp_apply step Cons.IH sim rest
      by (simp add: ofLevel_def)
  next
    case low
    have step: "classifyTransaction d t tx (hs, ms, ls, g) =
        (hs, ms, ls @ [tx(''fraud_probability'' \<mapsto> JNum (g 1 * 0.4), ''risk_level'' \<mapsto> JStr ''Low'')],
         ?g2)"
      using low by (simp add: classifyTransaction_def mathRandom_def Let_def)
    have sim: "simulated (High d / t, Medium d / t) g (tx # rows) =
        (''Low'', tx(''fraud_probability'' \<mapsto> JNum (g 1 * 0.4), ''risk_level'' \<mapsto> JStr ''Low'')) #
        simulated (High d / t, Medium d / t) ?g2 rows"
      using low by (simp add: drawnLevel_def drawnProbability_def)
    show ?thesis
      unfolding fold_Cons comp_apply step Cons.IH sim rest
      by (simp add: ofLevel_def)
  qed
qed

lemma simulated_levels:
  "length (ofLevel ''High'' (simulated shares g rows)) +
   length (ofLevel ''Medium'' (simulated shares g rows)) +
   length (ofLevel ''Low'' (simulated shares g rows)) = length rows"
  by (induction rows arbitrary: g) (simp_all add: ofLevel_def drawnLevel_def)

lemma thresholds_proportions:
  "(High (case distribution of None \<Rightarrow> \<lparr>High = 0, Medium = 0, Low = 0\<rparr> | Some d \<Rightarrow> d) /
      (if s \<noteq> 0 then s else 1),
    Medium (case distribution of None \<Rightarrow> \<lparr>High = 0, Medium = 0, Low = 0\<rparr> | Some d \<Rightarrow> d) /
      (if s \<noteq> 0 then s else 1)) = proportions distribution"
  if "s = High (case distribution of None \<Rightarrow> \<lparr>High = 0, Medium = 0, Low = 0\<rparr> | Some d \<Rightarrow> d) +
          Medium (case distribution of None \<Rightarrow> \<lparr>High = 0, Medium = 0, Low = 0\<rparr> | Some d \<Rightarrow> d) +
          Low (case distribution of None \<Rightarrow> \<lparr>High = 0, Medium = 0, Low = 0\<rparr> | Some d \<Rightarrow> d)"
  unfolding that by (cases distribution) (simp_all add: proportions_def)

lemma assemble_empty:
  "assemble rows distribution [] [] [] g =
     (\<lparr>processedTransactions =
          ofLevel ''High'' (simulated (proportions distribution) g rows) @
          ofLevel ''Medium'' (simulated (proportions distribution) g rows) @
          ofLevel ''Low'' (simulated (proportions distribution) g rows),
        error = None\<rparr>,
      \<lambda>n. g (n + 2 * length rows))"
proof -
  let ?sim = "simulated (proportions distribution) g rows"
  have "rows = []" if "ofLevel ''High'' ?sim = []" "ofLevel ''Medium'' ?sim = []" "ofLevel ''Low'' ?sim = []"
    using simulated_levels [of "proportions distribution" g rows] that by simp
  then show ?thesis
    unfolding assemble_def Let_def classify_simulated thresholds_proportions [OF refl]
    by auto
qed

lemma unitDraws_shift: "unitDraws g \<Longrightarrow> unitDraws (\<lambda>n. g (n + k))"
  by (simp add: unitDraws_def)

lemma simulated_all_high:
  assumes "unitDraws g"
  shows "ofLevel ''Medium'' (simulated (1, 0) g rows) = [] \<and>
         ofLevel ''Low'' (simulated (1, 0) g rows) = [] \<and>
         list_all2 (classifiedAs ''High'') (ofLevel ''High'' (simulated (1, 0) g rows)) rows"
  using assms
proof (induction rows arbitrary: g)
  case Nil
  show ?case by (simp add: ofLevel_def)
next
  case (Cons tx rows)
  from Cons.prems have "g 0 < 1" by (simp add: unitDraws_def)
  then have level: "drawnLevel (1, 0) (g 0) = ''High''"
    by (simp add: drawnLevel_def)
  have "classifiedAs ''High''
          (tx(''fraud_probability'' \<mapsto> JNum (drawnProbability ''High'' (g 1)), ''risk_level'' \<mapsto> JStr ''High'')) tx"
    unfolding classifiedAs_def by blast
  with Cons.IH [OF unitDraws_shift [OF Cons.prems, of 2]] show ?case
    by (simp add: level ofLevel_def)
qed

lemma simulated_all_low:
  assumes "unitDraws g"
  shows "ofLevel ''High'' (simulated (0, 0) g rows) = [] \<and>
         ofLevel ''Medium'' (simulated (0, 0) g rows) = [] \<and>
         list_all2 (classifiedAs ''Low'') (ofLevel ''Low'' (simulated (0, 0) g rows)) rows"
  using assms
proof (induction rows arbitrary: g)
  case Nil
  show ?case by (simp add: ofLevel_def)
next
  case (Cons tx rows)
  from Cons.prems have "\<not> g 0 < 0" by (simp add: unitDraws_def not_less)
  then have level: "drawnLevel (0, 0) (g 0) = ''Low''"
    by (simp add: drawnLevel_def)
  have "classifiedAs ''Low''
          (tx(''fraud_probability'' \<mapsto> JNum (drawnProbability ''Low'' (g 1)), ''risk_level'' \<mapsto> JStr ''Low'')) tx"
    unfolding classifiedAs_def by blast
  with Cons.IH [OF unitDraws_shift [OF Cons.prems, of 2]] show ?case
    by (simp add: level ofLevel_def)
qed

lemma reconcile_empty_buckets:
  assumes "emptyBucket (highRiskTransactions prediction)"
    and "emptyBucket (mediumRiskTransactions prediction)"
    and "emptyBucket (lowRiskTransactions prediction)"
  shows "reconcile h preprocessedData (JsonObject prediction) g =
           (Returned (fst (assemble preprocessedData (riskDistribution prediction) [] [] [] g)),
            snd (assemble preprocessedData (riskDistribution prediction) [] [] [] g))"
  by (simp add: reconcile_def Let_def mapBucket_empty [OF assms(1)] mapBucket_empty [OF assms(2)]
        mapBucket_empty [OF assms(3)] case_prod_beta)

text \<open>
  Claim C4. All three buckets of the response are empty. Each preprocessed row is
  classified with one draw, compared with the proportion of High and then with the sum
  of the proportions of High and Medium, and receives its probability from a second
  draw; the result lists the rows classified High, then Medium, then Low, each group in
  the order of the rows, and two draws are used per row. When every draw lies in the
  unit interval, the distribution High 100, Medium 0, Low 0 gives every row, in the
  order of the rows, the level High, and no distribution, or the all-zero one, gives
  every row the level Low.
\<close>

theorem empty_buckets_follow_distribution:
  assumes "emptyBucket (highRiskTransactions prediction)"
    and "emptyBucket (mediumRiskTransactions prediction)"
    and "emptyBucket (lowRiskTransactions prediction)"
  shows "reconcile h preprocessedData (JsonObject prediction) g =
           (Returned
              \<lparr>processedTransactions =
                 ofLevel ''High'' (simulated (proportions (riskDistribution prediction)) g preprocessedData) @
                 ofLevel ''Medium'' (simulated (proportions (riskDistribution prediction)) g preprocessedData) @
                 ofLevel ''Low'' (simulated (proportions (riskDistribution prediction)) g preprocessedData),
               error = None\<rparr>,
            \<lambda>n. g (n + 2 * length preprocessedData)) \<and>
         (unitDraws g \<and> riskDistribution prediction = Some \<lparr>High = 100, Medium = 0, Low = 0\<rparr> \<longrightarrow>
            (\<exists>result. fst (reconcile h preprocessedData (JsonObject prediction) g) = Returned result \<and>
               list_all2 (classifiedAs ''High'') (processedTransactions result) preprocessedData)) \<and>
         (unitDraws g \<and>
          (riskDistribution prediction = None \<or>
           riskDistribution prediction = Some \<lparr>High = 0, Medium = 0, Low = 0\<rparr>) \<longrightarrow>
            (\<exists>result. fst (reconcile h preprocessedData (JsonObject prediction) g) = Returned result \<and>
               list_all2 (classifiedAs ''Low'') (processedTransactions result) preprocessedData))"
proof (intro conjI impI)
  show general: "reconcile h preprocessedData (JsonObject prediction) g =
           (Returned
              \<lparr>processedTransactions =
                 ofLevel ''High'' (simulated (proportions (riskDistribution prediction)) g preprocessedData) @
                 ofLevel ''Medium'' (simulated (proportions (riskDistribution prediction)) g preprocessedData) @
                 ofLevel ''Low'' (simulated (proportions (riskDistribution prediction)) g preprocessedData),
               error = None\<rparr>,
            \<lambda>n. g (n + 2 * length preprocessedData))"
    unfolding reconcile_empty_buckets [OF assms] assemble_empty by simp
  {
    assume a: "unitDraws g \<and> riskDistribution prediction = Some \<lparr>High = 100, Medium = 0, Low = 0\<rparr>"
    then have "proportions (riskDistribution prediction) = (1, 0)"
      by (simp add: proportions_def)
    with simulated_all_high [OF a [THEN conjunct1], of preprocessedData]
    show "\<exists>result. fst (reconcile h preprocessedData (JsonObject prediction) g) = Returned result \<and>
               list_all2 (classifiedAs ''High'') (processedTransactions result) preprocessedData"
      unfolding general by simp
  }
  {
    assume a: "unitDraws g \<and>
          (riskDistribution prediction = None \<or>
           riskDistribution prediction = Some \<lparr>High = 0, Medium = 0, Low = 0\<rparr>)"
    then have "proportions (riskDistribution prediction) = (0, 0)"
      by (auto simp: proportions_def)
    with simulated_all_low [OF a [THEN conjunct1], of preprocessedData]
    show "\<exists>result. fst (reconcile h preprocessedData (JsonObject prediction) g) = Returned result \<and>
               list_all2 (classifiedAs ''Low'') (processedTransactions result) preprocessedData"
      unfolding general by simp
  }
qed

lemma classifiedAs_levels:
  "list_all2 (classifiedAs level) rs txs \<Longrightarrow>
     map (\<lambda>r. r ''risk_level'') rs = replicate (length txs) (Some (JStr level))"
  by (induction rs txs rule: list_all2_induct) (auto simp: classifiedAs_def)

lemma unitDraws_half: "unitDraws halfDraws"
  by (simp add: unitDraws_def halfDraws_def)

lemma simulated_example:
  "simulated (1 / 4, 1 / 4) (drawsFrom [0.9, 0.5, 0.3, 0.5, 0.1, 0.5])
     [[''id'' \<mapsto> JStr ''a''], [''id'' \<mapsto> JStr ''b''], [''id'' \<mapsto> JStr ''c'']] =
   [(''Low'', [''id'' \<mapsto> JStr ''a'', ''fraud_probability'' \<mapsto> JNum 0.2, ''risk_level'' \<mapsto> JStr ''Low'']),
    (''Medium'', [''id'' \<mapsto> JStr ''b'', ''fraud_probability'' \<mapsto> JNum 0.55, ''risk_level'' \<mapsto> JStr ''Medium'']),
    (''High'', [''id'' \<mapsto> JStr ''c'', ''fraud_probability'' \<mapsto> JNum 0.85, ''risk_level'' \<mapsto> JStr ''High''])]"
  by (simp add: drawsFrom_def drawnLevel_def drawnProbability_def)

theorem empty_buckets_follow_distribution_witness:
  "fst (reconcile exampleHost
          [[''id'' \<mapsto> JStr ''a''], [''id'' \<mapsto> JStr ''b''], [''id'' \<mapsto> JStr ''c'']]
          (JsonObject \<lparr>highRiskTransactions = Items [], mediumRiskTransactions = NoBucket,
                       lowRiskTransactions = Items [],
                       riskDistribution = Some \<lparr>High = 1, Medium = 1, Low = 2\<rparr>\<rparr>)
          (drawsFrom [0.9, 0.5, 0.3, 0.5, 0.1, 0.5])) =
     Returned
       \<lparr>processedTransactions =
          [[''id'' \<mapsto> JStr ''c'', ''fraud_probability'' \<mapsto> JNum 0.85, ''risk_level'' \<mapsto> JStr ''High''],
           [''id'' \<mapsto> JStr ''b'', ''fraud_probability'' \<mapsto> JNum 0.55, ''risk_level'' \<mapsto> JStr ''Medium''],
           [''id'' \<mapsto> JStr ''a'', ''fraud_probability'' \<mapsto> JNum 0.2, ''risk_level'' \<mapsto> JStr ''Low'']],
        error = None\<rparr> \<and>
   (\<exists>result.
      fst (reconcile exampleHost [[''id'' \<mapsto> JStr ''a''], [''id'' \<mapsto> JStr ''b'']]
             (JsonObject \<lparr>highRiskTransactions = Items [], mediumRiskTransactions = Items [],
                          lowRiskTransactions = NoBucket,
                          riskDistribution = Some \<lparr>High = 100, Medium = 0, Low = 0\<rparr>\<rparr>) halfDraws) =
        Returned result \<and>
      map (\<lambda>r. r ''risk_level'') (processedTransactions result) =
        [Some (JStr ''High''), Some (JStr ''High'')]) \<and>
   (\<exists>result.
      fst (reconcile exampleHost [[''id'' \<mapsto> JStr ''a''], [''id'' \<mapsto> JStr ''b'']]
             (JsonObject \<lparr>highRiskTransactions = Items [], mediumRiskTransactions = Items [],
                          lowRiskTransactions = NoBucket, riskDistribution = None\<rparr>) halfDraws) =
        Returned result \<and>
      map (\<lambda>r. r ''risk_level'') (processedTransactions result) =
        [Some (JStr ''Low''), Some (JStr ''Low'')])"
proof (intro conjI)
  let ?rows3 = "[[''id'' \<mapsto> JStr ''a''], [''id'' \<mapsto> JStr ''b''], [''id'' \<mapsto> JStr ''c'']] :: row list"
  let ?p0 = "\<lparr>highRiskTransactions = Items [], mediumRiskTransactions = NoBucket,
              lowRiskTransactions = Items [],
              riskDistribution = Some \<lparr>High = 1, Medium = 1, Low = 2\<rparr>\<rparr>"
  have shares: "proportions (riskDistribution ?p0) = (1 / 4, 1 / 4)"
    by (simp add: proportions_def)
  have "emptyBucket (highRiskTransactions ?p0)" "emptyBucket (mediumRiskTransactions ?p0)"
    "emptyBucket (lowRiskTransactions ?p0)"
    by (simp_all add: emptyBucket_def)
  from empty_buckets_follow_distribution [OF this, THEN conjunct1,
      of exampleHost ?rows3 "drawsFrom [0.9, 0.5, 0.3, 0.5, 0.1, 0.5]"]
  show "fst (reconcile exampleHost ?rows3 (JsonObject ?p0) (drawsFrom [0.9, 0.5, 0.3, 0.5, 0.1, 0.5])) =
     Returned
       \<lparr>processedTransactions =
          [[''id'' \<mapsto> JStr ''c'', ''fraud_probability'' \<mapsto> JNum 0.85, ''risk_level'' \<mapsto> JStr ''High''],
           [''id'' \<mapsto> JStr ''b'', ''fraud_probability'' \<mapsto> JNum 0.55, ''risk_level'' \<mapsto> JStr ''Medium''],
           [''id'' \<mapsto> JStr ''a'', ''fraud_probability'' \<mapsto> JNum 0.2, ''risk_level'' \<mapsto> JStr ''Low'']],
        error = None\<rparr>"
    unfolding shares simulated_example by (simp add: ofLevel_def)
next
  let ?rows = "[[''id'' \<mapsto> JStr ''a''], [''id'' \<mapsto> JStr ''b'']] :: row list"
  let ?p1 = "\<lparr>highRiskTransactions = Items [], mediumRiskTransactions = Items [],
              lowRiskTransactions = NoBucket,
              riskDistribution = Some \<lparr>High = 100, Medium = 0, Low = 0\<rparr>\<rparr>"
  have e: "emptyBucket (highRiskTransactions ?p1)" "emptyBucket (mediumRiskTransactions ?p1)"
    "emptyBucket (lowRiskTransactions ?p1)"
    by (simp_all add: emptyBucket_def)
  have "unitDraws halfDraws \<and> riskDistribution ?p1 = Some \<lparr>High = 100, Medium = 0, Low = 0\<rparr>"
    by (simp add: unitDraws_half)
  from empty_buckets_follow_distribution [OF e, THEN conjunct2, THEN conjunct1, THEN mp, OF this,
      of exampleHost ?rows]
  obtain result where r: "fst (reconcile exampleHost ?rows (JsonObject ?p1) halfDraws) = Returned result"
    and l: "list_all2 (classifiedAs ''High'') (processedTransactions result) ?rows"
    by (elim exE conjE)
  from classifiedAs_levels [OF l]
  have "map (\<lambda>r. r ''risk_level'') (processedTransactions result) = [Some (JStr ''High''), Some (JStr ''High'')]"
    by (simp add: numeral_2_eq_2)
  with r show "\<exists>result. fst (reconcile exampleHost ?rows (JsonObject ?p1) halfDraws) = Returned result \<and>
      map (\<lambda>r. r ''risk_level'') (processedTransactions result) =
        [Some (JStr ''High''), Some (JStr ''High'')]"
    by (intro exI conjI)
next
  let ?rows = "[[''id'' \<mapsto> JStr ''a''], [''id'' \<mapsto> JStr ''b'']] :: row list"
  let ?p2 = "\<lparr>highRiskTransactions = Items [], mediumRiskTransactions = Items [],
              lowRiskTransactions = NoBucket, riskDistribution = None\<rparr>"
  have e: "emptyBucket (highRiskTransactions ?p2)" "emptyBucket (mediumRiskTransactions ?p2)"
    "emptyBucket (lowRiskTransactions ?p2)"
    by (simp_all add: emptyBucket_def)
  have "unitDraws halfDraws \<and>
        (riskDistribution ?p2 = None \<or> riskDistribution ?p2 = Some \<lparr>High = 0, Medium = 0, Low = 0\<rparr>)"
    by (simp add: unitDraws_half)
  from empty_buckets_follow_distribution [OF e, THEN conjunct2, THEN conjunct2, THEN mp, OF this,
      of exampleHost ?rows]
  obtain result where r: "fst (reconcile exampleHost ?rows (JsonObject ?p2) halfDraws) = Returned result"
    and l: "list_all2 (classifiedAs ''Low'') (processedTransactions result) ?rows"
    by (elim exE conjE)
  from classifiedAs_levels [OF l]
  have "map (\<lambda>r. r ''risk_level'') (processedTransactions result) = [Some (JStr ''Low''), Some (JStr ''Low'')]"
    by (simp add: numeral_2_eq_2)
  with r show "\<exists>result. fst (reconcile exampleHost ?rows (JsonObject ?p2) halfDraws) = Returned result \<and>
      map (\<lambda>r. r ''risk_level'') (processedTransactions result) =
        [Some (JStr ''Low''), Some (JStr ''Low'')]"
    by (intro exI conjI)
qed

section \<open>The orchestration: resolved, and never settled\<close>

text \<open>The ways in which the prediction client fails, and the one in which it succeeds.\<close>

lemma predictTransaction_cases:
  "predictTransaction 0 fetched = Thrown (Error ''Invalid or empty file'')"
  "0 < n \<Longrightarrow> predictTransaction n (FetchRejected e) = Thrown (rethrow e)"
  "0 < n \<Longrightarrow> \<not> ok response \<Longrightarrow> \<exists>msg. predictTransaction n (FetchResolved response) = Thrown (Error msg)"
  "0 < n \<Longrightarrow> ok response \<Longrightarrow> bodyJson response = None \<Longrightarrow>
     predictTransaction n (FetchResolved response) = Thrown (Error ''Invalid response format from server'')"
  "0 < n \<Longrightarrow> ok response \<Longrightarrow> bodyJson response = Some data \<Longrightarrow>
     predictTransaction n (FetchResolved response) = Returned data"
  by (simp_all add: predictTransaction_def rethrow_def Error_def Let_def)

lemma predictTransaction_timeout:
  "0 < n \<Longrightarrow> predictTransaction n (FetchRejected \<lparr>name = ''AbortError'', message = m\<rparr>) =
     Thrown (Error timeoutMessage)"
  by (simp add: predictTransaction_def rethrow_def)

lemma predictTransaction_settles: "predictTransaction n fetched \<noteq> Pending"
  by (simp add: predictTransaction_def Let_def split: fetch_result.splits option.splits)

lemma predictAndReconcile_settles: "fst (predictAndReconcile h preprocessedData g) \<noteq> Pending"
proof -
  let ?csv = "unparse h preprocessedData"
  show ?thesis
  proof (cases "predictTransaction (length ?csv) (fetch h ?csv)")
    case (Returned prediction)
    then show ?thesis
      by (simp add: predictAndReconcile_def Let_def reconcile_settles)
  next
    case (Thrown e)
    then show ?thesis
      by (simp add: predictAndReconcile_def Let_def)
  next
    case Pending
    with predictTransaction_settles show ?thesis by blast
  qed
qed

lemma randomRisk_rated: "randomlyRated (fst (randomRisk tx g)) tx"
  unfolding randomlyRated_def randomRisk_def Let_def case_prod_beta
  by (cases "0.7 < fst (mathRandom (snd (mathRandom g)))";
      cases "0.4 < fst (mathRandom (snd (mathRandom (snd (mathRandom g)))))") auto

lemma processTransactions_pending:
  assumes "feedChunks upload [] = Pending"
  shows "processTransactions h upload g = (Pending, g)"
  using assms by (simp add: processTransactions_def processCSV_def)

lemma processTransactions_csv_failure:
  assumes "feedChunks upload [] = Thrown e"
  shows "processTransactions h upload g =
           (Returned \<lparr>processedTransactions = [],
                 error = Some \<lparr>message = ''Invalid CSV format for Spark/Dask processing: '' @ js_error.message e,
                               statusCode = 400\<rparr>\<rparr>, g)"
  using assms by (simp add: processTransactions_def processCSV_def csvFailed_def)

lemma processTransactions_prediction_failure:
  assumes "feedChunks upload [] = Returned results"
    and "preprocessCSV (newDateOf h) results g = (preprocessedData, g1)"
    and "predictAndReconcile h preprocessedData g1 = (Thrown e, g2)"
  shows "processTransactions h upload g =
           (Returned \<lparr>processedTransactions = fst (mapRandom randomRisk preprocessedData g2),
                 error = Some \<lparr>message = ''Apache Spark cluster error: '' @ js_error.message e @
                                 ''. Using Dask for local processing with simulated fraud probabilities.'',
                               statusCode = 500\<rparr>\<rparr>,
            snd (mapRandom randomRisk preprocessedData g2))"
  using assms
  by (simp add: processTransactions_def processCSV_def predictionFailed_def
        USE_DEMO_DATA_ON_ERROR_def Let_def case_prod_beta)

lemma processTransactions_success:
  assumes "feedChunks upload [] = Returned results"
    and "preprocessCSV (newDateOf h) results g = (preprocessedData, g1)"
    and "predictAndReconcile h preprocessedData g1 = (Returned result, g2)"
  shows "processTransactions h upload g = (Returned result, g2)"
  using assms
  by (simp add: processTransactions_def processCSV_def Let_def case_prod_beta)

text \<open>
  The handler of the outermost \<^verbatim>\<open>try\<close> is never entered, because both inner
  handlers return: \<open>processTransactions\<close> never generates demo transactions.
\<close>

lemma predictionFailed_returns: "\<exists>result g'. predictionFailed preprocessedData e g = (Returned result, g')"
  by (simp add: predictionFailed_def Let_def case_prod_beta)

lemma outer_handler_unreachable:
  "processTransactions h upload g =
     tryCatch
       (andThen (processCSV (newDateOf h) upload g)
          (\<lambda>preprocessedData g'.
             tryCatch (predictAndReconcile h preprocessedData g') (predictionFailed preprocessedData)))
       csvFailed"
proof -
  obtain res g1 where c: "processCSV (newDateOf h) upload g = (res, g1)"
    by (cases "processCSV (newDateOf h) upload g")
  show ?thesis
  proof (cases res)
    case (Thrown e)
    with c show ?thesis
      by (simp add: processTransactions_def csvFailed_def)
  next
    case Pending
    with c show ?thesis
      by (simp add: processTransactions_def)
  next
    case (Returned preprocessedData)
    obtain out g2 where p: "predictAndReconcile h preprocessedData g1 = (out, g2)"
      by (cases "predictAndReconcile h preprocessedData g1")
    show ?thesis
    proof (cases out)
      case (Thrown e)
      from predictionFailed_returns [of preprocessedData e g2] obtain result g3
        where "predictionFailed preprocessedData e g2 = (Returned result, g3)"
        by blast
      with c Returned p Thrown show ?thesis
        by (simp add: processTransactions_def)
    next
      case returned: (Returned result)
      with c Returned p show ?thesis
        by (simp add: processTransactions_def)
    next
      case Pending
      with c Returned p show ?thesis
        by (simp add: processTransactions_def)
    qed
  qed
qed

text \<open>
  Every outcome of \<open>processTransactions\<close>. It never rejects. It is never settled
  exactly when the \<^verbatim>\<open>chunk\<close> callback throws. When the CSV stage rejects, it resolves
  with no transaction and an error of status 400. When the prediction stage throws
  (the request, the status, the JSON text, or a response that is not of the declared
  shape), it resolves with the uploaded rows, each given a random probability and
  level, and an error of status 500. Otherwise it resolves with what the reconciler
  returns.
\<close>

lemma processTransactions_outcomes:
  "(\<forall>e. fst (processTransactions h upload g) \<noteq> Thrown e) \<and>
   (fst (processTransactions h upload g) = Pending \<longleftrightarrow> feedChunks upload [] = Pending) \<and>
   (\<forall>e. feedChunks upload [] = Thrown e \<longrightarrow>
      fst (processTransactions h upload g) =
        Returned \<lparr>processedTransactions = [],
              error = Some \<lparr>message = ''Invalid CSV format for Spark/Dask processing: '' @ js_error.message e,
                            statusCode = 400\<rparr>\<rparr>) \<and>
   (\<forall>results e.
      feedChunks upload [] = Returned results \<and>
      fst (predictAndReconcile h (fst (preprocessCSV (newDateOf h) results g))
             (snd (preprocessCSV (newDateOf h) results g))) = Thrown e \<longrightarrow>
      (\<exists>result. fst (processTransactions h upload g) = Returned result \<and>
         list_all2 randomlyRated (processedTransactions result) (fst (preprocessCSV (newDateOf h) results g)) \<and>
         error result = Some \<lparr>message = ''Apache Spark cluster error: '' @ js_error.message e @
                                 ''. Using Dask for local processing with simulated fraud probabilities.'',
                               statusCode = 500\<rparr>)) \<and>
   (\<forall>results result.
      feedChunks upload [] = Returned results \<and>
      fst (predictAndReconcile h (fst (preprocessCSV (newDateOf h) results g))
             (snd (preprocessCSV (newDateOf h) results g))) = Returned result \<longrightarrow>
      fst (processTransactions h upload g) = Returned result)"
proof -
  have pre: "preprocessCSV (newDateOf h) results g =
      (fst (preprocessCSV (newDateOf h) results g), snd (preprocessCSV (newDateOf h) results g))"
    for results
    by simp
  have par: "predictAndReconcile h rows g1 =
      (fst (predictAndReconcile h rows g1), snd (predictAndReconcile h rows g1))"
    for rows g1
    by simp
  have failure: "\<exists>result. fst (processTransactions h upload g) = Returned result \<and>
         list_all2 randomlyRated (processedTransactions result) (fst (preprocessCSV (newDateOf h) results g)) \<and>
         error result = Some \<lparr>message = ''Apache Spark cluster error: '' @ js_error.message e @
                                 ''. Using Dask for local processing with simulated fraud probabilities.'',
                               statusCode = 500\<rparr>"
    if "feedChunks upload [] = Returned results"
      and "fst (predictAndReconcile h (fst (preprocessCSV (newDateOf h) results g))
             (snd (preprocessCSV (newDateOf h) results g))) = Thrown e"
    for results e
  proof -
    from that(2) par [of "fst (preprocessCSV (newDateOf h) results g)" "snd (preprocessCSV (newDateOf h) results g)"]
    have "predictAndReconcile h (fst (preprocessCSV (newDateOf h) results g))
             (snd (preprocessCSV (newDateOf h) results g)) =
          (Thrown e, snd (predictAndReconcile h (fst (preprocessCSV (newDateOf h) results g))
             (snd (preprocessCSV (newDateOf h) results g))))"
      by simp
    from processTransactions_prediction_failure [OF that(1) pre this]
      mapRandom_list_all2 [of randomlyRated randomRisk, OF randomRisk_rated]
    show ?thesis by simp
  qed
  have success: "fst (processTransactions h upload g) = Returned result"
    if "feedChunks upload [] = Returned results"
      and "fst (predictAndReconcile h (fst (preprocessCSV (newDateOf h) results g))
             (snd (preprocessCSV (newDateOf h) results g))) = Returned result"
    for results result
  proof -
    from that(2) par [of "fst (preprocessCSV (newDateOf h) results g)" "snd (preprocessCSV (newDateOf h) results g)"]
    have "predictAndReconcile h (fst (preprocessCSV (newDateOf h) results g))
             (snd (preprocessCSV (newDateOf h) results g)) =
          (Returned result, snd (predictAndReconcile h (fst (preprocessCSV (newDateOf h) results g))
             (snd (preprocessCSV (newDateOf h) results g))))"
      by simp
    from processTransactions_success [OF that(1) pre this]
    show ?thesis by simp
  qed
  have settled: "\<exists>result. fst (processTransactions h upload g) = Returned result"
    if "feedChunks upload [] \<noteq> Pending"
  proof (cases "feedChunks upload []")
    case (Returned results)
    let ?out = "fst (predictAndReconcile h (fst (preprocessCSV (newDateOf h) results g))
             (snd (preprocessCSV (newDateOf h) results g)))"
    show ?thesis
    proof (cases ?out)
      case returned: (Returned result)
      from success [OF Returned returned] show ?thesis by blast
    next
      case (Thrown e)
      from failure [OF Returned Thrown] show ?thesis by blast
    next
      case Pending
      with predictAndReconcile_settles show ?thesis by blast
    qed
  next
    case (Thrown e)
    then show ?thesis by (simp add: processTransactions_csv_failure)
  next
    case Pending
    with that show ?thesis by simp
  qed
  show ?thesis
  proof (intro conjI allI impI)
    fix e
    show "fst (processTransactions h upload g) \<noteq> Thrown e"
    proof (cases "feedChunks upload [] = Pending")
      case True
      then show ?thesis by (simp add: processTransactions_pending)
    next
      case False
      from settled [OF this] show ?thesis by auto
    qed
  next
    show "fst (processTransactions h upload g) = Pending \<longleftrightarrow> feedChunks upload [] = Pending"
    proof
      assume p: "fst (processTransactions h upload g) = Pending"
      show "feedChunks upload [] = Pending"
      proof (rule ccontr)
        assume "feedChunks upload [] \<noteq> Pending"
        from settled [OF this] p show False by auto
      qed
    next
      assume "feedChunks upload [] = Pending"
      then show "fst (processTransactions h upload g) = Pending"
        by (simp add: processTransactions_pending)
    qed
  next
    fix e assume "feedChunks upload [] = Thrown e"
    then show "fst (processTransactions h upload g) =
        Returned \<lparr>processedTransactions = [],
              error = Some \<lparr>message = ''Invalid CSV format for Spark/Dask processing: '' @ js_error.message e,
                            statusCode = 400\<rparr>\<rparr>"
      by (simp add: processTransactions_csv_failure)
  next
    fix results e
    assume "feedChunks upload [] = Returned results \<and>
      fst (predictAndReconcile h (fst (preprocessCSV (newDateOf h) results g))
             (snd (preprocessCSV (newDateOf h) results g))) = Thrown e"
    then show "\<exists>result. fst (processTransactions h upload g) = Returned result \<and>
         list_all2 randomlyRated (processedTransactions result) (fst (preprocessCSV (newDateOf h) results g)) \<and>
         error result = Some \<lparr>message = ''Apache Spark cluster error: '' @ js_error.message e @
                                 ''. Using Dask for local processing with simulated fraud probabilities.'',
                               statusCode = 500\<rparr>"
      using failure by blast
  next
    fix results result
    assume "feedChunks upload [] = Returned results \<and>
      fst (predictAndReconcile h (fst (preprocessCSV (newDateOf h) results g))
             (snd (preprocessCSV (newDateOf h) results g))) = Returned result"
    then show "fst (processTransactions h upload g) = Returned result"
      using success by blast
  qed
qed

text \<open>
  A service that answers \<^verbatim>\<open>null\<close> with status 200: the reconciler throws, and the
  caller receives the uploaded row, rated at random, with an error of status 500.
\<close>

lemma null_response_example:
  "\<exists>result. fst (processTransactions (answering JsonNull) [Chunk [[''amt'' \<mapsto> ''5'']]] halfDraws) =
               Returned result \<and>
            length (processedTransactions result) = 1 \<and>
            error result = Some \<lparr>message = ''Apache Spark cluster error: Cannot read properties of prediction.highRiskTransactions. Using Dask for local processing with simulated fraud probabilities.'',
                                  statusCode = 500\<rparr>"
proof -
  let ?h = "answering JsonNull"
  let ?up = "[Chunk [[''amt'' \<mapsto> ''5'']]]"
  let ?pre = "fst (preprocessCSV (newDateOf ?h) [[''amt'' \<mapsto> ''5'']] halfDraws)"
  let ?g1 = "snd (preprocessCSV (newDateOf ?h) [[''amt'' \<mapsto> ''5'']] halfDraws)"
  have "feedChunks ?up [] = Returned [[''amt'' \<mapsto> ''5'']] \<and>
        fst (predictAndReconcile ?h ?pre ?g1) = Thrown (TypeError ?h ''prediction.highRiskTransactions'')"
    by (simp add: Let_def answering_def exampleHost_def predictAndReconcile_def predictTransaction_def
          reconcile_ill_shaped(1))
  from processTransactions_outcomes [of ?h ?up halfDraws, THEN conjunct2, THEN conjunct2,
      THEN conjunct2, THEN conjunct1, THEN spec, THEN spec, THEN mp, OF this]
  obtain result where r: "fst (processTransactions ?h ?up halfDraws) = Returned result"
    and l: "list_all2 randomlyRated (processedTransactions result) ?pre"
    and e: "error result = Some \<lparr>message = ''Apache Spark cluster error: '' @
              js_error.message (TypeError ?h ''prediction.highRiskTransactions'') @
              ''. Using Dask for local processing with simulated fraud probabilities.'',
            statusCode = 500\<rparr>"
    by (elim exE conjE)
  from l have "length (processedTransactions result) = 1"
    by (simp add: list_all2_lengthD preprocessCSV_length)
  with r e show ?thesis
    by (simp add: TypeError_def answering_def exampleHost_def)
qed

text \<open>
  Claim C2. The claim is that whenever a stage fails, the CSV parse included,
  \<open>processTransactions\<close> resolves with fallback transactions, so that the caller
  always receives data to show; the comment of line 104 says the same (always fall back
  to demo data on error), and the handlers of lines 561-581 and 601-613 do so. The
  handler of the CSV stage (lines 591-600) does not: for a file that cannot be read the
  caller receives an empty list with an error of status 400. And when a chunk is too
  large to be pushed in one call (line 295), no handler runs and the promise is never
  settled.
\<close>

theorem csv_failure_returns_no_transactions:
  "fst (processTransactions exampleHost [ParseError (Error ''Unable to read file'')] zeroDraws) =
     Returned \<lparr>processedTransactions = [],
           error = Some \<lparr>message = ''Invalid CSV format for Spark/Dask processing: Unable to read file'',
                         statusCode = 400\<rparr>\<rparr> \<and>
   fst (processTransactions exampleHost [OversizedChunk (replicate 600000 [''amt'' \<mapsto> ''5''])] zeroDraws) =
     Pending"
  by (simp add: processTransactions_csv_failure processTransactions_pending Error_def)

end
